theory Spec2Isabelle
  imports Complex_Main
begin

section \<open>JavaScript values\<close>

text \<open>
  The plugin is JavaScript, so the model starts with the values its functions receive:
  primitives, plain objects such as \<open>{code: 1}\<close>, functions (known only by an identity,
  their bodies belong to the application) and native error objects such as the
  \<open>TypeError\<close> raised by a property access on \<open>undefined\<close>. Arrays and dates are not
  modelled. Numbers are IEEE doubles in the program; the model keeps NaN and the two
  infinities apart and takes the finite ones as rationals (rounding is not modelled).
\<close>

datatype jsnum = NaN | PosInf | NegInf | Fin rat

datatype jsval =
    JUndefined
  | JNull
  | JBool bool
  | JNum jsnum
  | JStr string
  | JObj "(string \<times> jsval) list"
  | JFun nat
  | JErr string string

definition TypeError :: "string \<Rightarrow> jsval" where
  "TypeError msg = JErr ''TypeError'' msg"

text \<open>\<open>ToBoolean\<close>: what \<open>a && b\<close>, \<open>a || b\<close>, \<open>!a\<close> and \<open>if (a)\<close> test.\<close>

fun ToBoolean :: "jsval \<Rightarrow> bool" where
  "ToBoolean JUndefined = False"
| "ToBoolean JNull = False"
| "ToBoolean (JBool b) = b"
| "ToBoolean (JNum n) = (n \<noteq> NaN \<and> n \<noteq> Fin 0)"
| "ToBoolean (JStr s) = (s \<noteq> [])"
| "ToBoolean (JObj fs) = True"
| "ToBoolean (JFun k) = True"
| "ToBoolean (JErr n m) = True"

text \<open>
  The host: everything the two modules use and do not define. The engine's conversion
  of a string to a number, whether \<open>new Audio()\<close> throws (and what), whether an
  operation on an existing audio element throws, and the two constants read from the
  global \<open>NocSonicMediaError\<close>, which no source file of the plugin defines.
\<close>

record audio =
  a_src :: "jsval option"
  currentTime :: jsnum
  volume :: jsval
  paused :: bool

datatype element_op = ElPlay | ElPause | ElSetCurrentTime jsnum | ElGetCurrentTime | ElSetVolume jsval

record host =
  StringToNumber :: "string \<Rightarrow> jsnum"
  Audio_throws :: "jsval option"
  element_throws :: "element_op \<Rightarrow> audio \<Rightarrow> jsval option"
  MEDIA_ERR_ABORTED :: jsnum
  MEDIA_ERR_SRC_NOT_SUPPORTED :: jsnum

text \<open>The string an object turns into when it is compared with or converted to a primitive.\<close>

fun error_string :: "string \<Rightarrow> string \<Rightarrow> string" where
  "error_string n m = (if m = [] then n else if n = [] then m else n @ '': '' @ m)"

fun ToNumber :: "host \<Rightarrow> jsval \<Rightarrow> jsnum" where
  "ToNumber h JUndefined = NaN"
| "ToNumber h JNull = Fin 0"
| "ToNumber h (JBool b) = Fin (if b then 1 else 0)"
| "ToNumber h (JNum n) = n"
| "ToNumber h (JStr s) = StringToNumber h s"
| "ToNumber h (JObj fs) = StringToNumber h ''[object Object]''"
| "ToNumber h (JFun k) = NaN"
| "ToNumber h (JErr n m) = StringToNumber h (error_string n m)"

text \<open>
  \<open>v === n\<close> and \<open>v == n\<close> for a number constant \<open>n\<close> of the program: every
  comparison in the two modules has a number constant on its right. Strict equality
  holds for the same number only; loose equality first converts a string, a boolean or
  an object to a number, and \<open>null\<close> and \<open>undefined\<close> equal no number.
\<close>

definition strict_eq_num :: "jsval \<Rightarrow> jsnum \<Rightarrow> bool" where
  "strict_eq_num v n = (v = JNum n \<and> n \<noteq> NaN)"

fun loose_eq_num :: "host \<Rightarrow> jsval \<Rightarrow> jsnum \<Rightarrow> bool" where
  "loose_eq_num h JUndefined n = False"
| "loose_eq_num h JNull n = False"
| "loose_eq_num h v n = (ToNumber h v = n \<and> n \<noteq> NaN)"

section \<open>The state of a module\<close>

text \<open>
  A handle is an object on the heap; the registry \<open>mediaObjects\<close> maps an id to a
  reference. The three callbacks are application code: the model records each invocation
  (which function, which arguments) in \<open>trace\<close> and takes the callback to return
  normally and to leave the module's state alone. \<open>console\<close> holds the lines written
  with \<open>console.error\<close>, \<open>outbox\<close> the requests handed to \<open>cordova/exec\<close>.
  Field \<open>node\<close> is \<open>None\<close> when the property is absent (always, in the bridge module).
  \<open>mediaObjects\<close> holds the registry's own properties, the registered handles;
  \<open>assigned_duration\<close> and \<open>assigned_position\<close> hold what \<open>onStatus\<close> has written onto
  objects that are not handles (see the registry lookup below).
\<close>

type_synonym ref = nat

record media =
  media_id :: string
  src :: jsval
  successCallback :: jsval
  errorCallback :: jsval
  statusCallback :: jsval
  duration :: jsval
  position :: jsval
  node :: "audio option"

datatype event = Invoke nat "jsval list"

datatype logline = Unhandled jsval | UnknownMedia string

text \<open>The success functions the bridge module passes to \<open>exec\<close>, by the method that builds them.\<close>

datatype cont = NoCallback | StopAck ref | SeekAck ref | PositionAck ref jsval

datatype request = Exec cont jsval string string "jsval list"

record world =
  mediaObjects :: "string \<Rightarrow> ref option"
  heap :: "ref \<Rightarrow> media"
  nextRef :: ref
  trace :: "event list"
  console :: "logline list"
  outbox :: "request list"
  assigned_duration :: "string \<Rightarrow> jsval option"
  assigned_position :: "string \<Rightarrow> jsval option"

text \<open>A statement either completes (\<open>Inr\<close>) or throws a value (\<open>Inl\<close>); the state goes on in both cases.\<close>

type_synonym 'a js = "world \<Rightarrow> (jsval + 'a) \<times> world"

definition ret :: "'a \<Rightarrow> 'a js" where
  "ret x w = (Inr x, w)"

definition throw :: "jsval \<Rightarrow> 'a js" where
  "throw e w = (Inl e, w)"

definition andThen :: "'a js \<Rightarrow> ('a \<Rightarrow> 'b js) \<Rightarrow> 'b js" where
  "andThen f g w = (case f w of (Inl e, w') \<Rightarrow> (Inl e, w') | (Inr x, w') \<Rightarrow> g x w')"

definition tryCatch :: "'a js \<Rightarrow> (jsval \<Rightarrow> 'a js) \<Rightarrow> 'a js" where
  "tryCatch f g w = (case f w of (Inl e, w') \<Rightarrow> g e w' | (Inr x, w') \<Rightarrow> (Inr x, w'))"

definition modify :: "(world \<Rightarrow> world) \<Rightarrow> unit js" where
  "modify f w = (Inr (), f w)"

definition update_media :: "ref \<Rightarrow> (media \<Rightarrow> media) \<Rightarrow> world \<Rightarrow> world" where
  "update_media r f w = w\<lparr>heap := (heap w)(r := f (heap w r))\<rparr>"

text \<open>\<open>f(args)\<close>: calling anything but a function throws a TypeError.\<close>

definition call :: "jsval \<Rightarrow> jsval list \<Rightarrow> unit js" where
  "call f args w =
     (case f of
        JFun k \<Rightarrow> (Inr (), w\<lparr>trace := trace w @ [Invoke k args]\<rparr>)
      | _ \<Rightarrow> (Inl (TypeError ''not a function''), w))"

text \<open>\<open>f && f(args)\<close>\<close>

definition guarded_call :: "jsval \<Rightarrow> jsval list \<Rightarrow> unit js" where
  "guarded_call f args = (if ToBoolean f then call f args else ret ())"

text \<open>\<open>console.error && console.error(line)\<close>\<close>

definition console_error :: "logline \<Rightarrow> unit js" where
  "console_error l = modify (\<lambda>w. w\<lparr>console := console w @ [l]\<rparr>)"

section \<open>Constants of both modules\<close>

definition MEDIA_STATE :: jsnum where "MEDIA_STATE = Fin 1"
definition MEDIA_DURATION :: jsnum where "MEDIA_DURATION = Fin 2"
definition MEDIA_POSITION :: jsnum where "MEDIA_POSITION = Fin 3"
definition MEDIA_ERROR :: jsnum where "MEDIA_ERROR = Fin 9"

definition MEDIA_NONE :: jsnum where "MEDIA_NONE = Fin 0"
definition MEDIA_STARTING :: jsnum where "MEDIA_STARTING = Fin 1"
definition MEDIA_RUNNING :: jsnum where "MEDIA_RUNNING = Fin 2"
definition MEDIA_PAUSED :: jsnum where "MEDIA_PAUSED = Fin 3"
definition MEDIA_STOPPED :: jsnum where "MEDIA_STOPPED = Fin 4"

section \<open>The registry lookup\<close>

text \<open>
  The registry is \<open>var mediaObjects = {}\<close>, a plain object used as a dictionary, and
  \<open>onStatus\<close> reads \<open>mediaObjects[id]\<close> without asking whether the property is the
  object's own. So the lookup finds, in this order: a registered handle; for a name that
  every object inherits from \<open>Object.prototype\<close>, the built-in behind it (a built-in
  function, and \<open>Object.prototype\<close> itself for \<open>__proto__\<close>); for \<open>_duration\<close> and
  \<open>_position\<close>, the value that \<open>onStatus\<close> has itself put on \<open>Object.prototype\<close>, if
  it has (these are the only two properties the modules ever assign through the lookup's
  result); otherwise \<open>undefined\<close>. The ids that \<open>utils.createUUID()\<close> makes are UUIDs and
  name none of these; \<open>__proto__\<close>, the one key that an assignment
  \<open>mediaObjects[id] = this\<close> would not store, is not among them.
\<close>

definition Object_prototype_names :: "string list" where
  "Object_prototype_names =
     [''constructor'', ''__defineGetter__'', ''__defineSetter__'', ''hasOwnProperty'',
      ''__lookupGetter__'', ''__lookupSetter__'', ''isPrototypeOf'', ''propertyIsEnumerable'',
      ''toString'', ''valueOf'', ''__proto__'', ''toLocaleString'']"

datatype found = Handle ref | Builtin string | Inherited string jsval | Missing

definition lookup :: "world \<Rightarrow> string \<Rightarrow> found" where
  "lookup w i =
     (case mediaObjects w i of
        Some m \<Rightarrow> Handle m
      | None \<Rightarrow>
          if i \<in> set Object_prototype_names then Builtin i
          else if i = ''_duration'' then
            (case assigned_duration w ''__proto__'' of
               Some v \<Rightarrow> Inherited i v | None \<Rightarrow> Missing)
          else if i = ''_position'' then
            (case assigned_position w ''__proto__'' of
               Some v \<Rightarrow> Inherited i v | None \<Rightarrow> Missing)
          else Missing)"

text \<open>\<open>if (media)\<close>: objects and functions are truthy, a value found on the prototype is tested.\<close>

fun truthy :: "found \<Rightarrow> bool" where
  "truthy (Handle m) = True"
| "truthy (Builtin b) = True"
| "truthy (Inherited p v) = ToBoolean v"
| "truthy Missing = False"

text \<open>
  \<open>media.statusCallback\<close>, \<open>media.successCallback\<close> and \<open>media.errorCallback\<close>: the
  handle's field; \<open>undefined\<close> on a built-in, which has no property of these names; on a
  value found on the prototype, the property of that name when the value is an object
  that has one, \<open>undefined\<close> otherwise.
\<close>

fun property :: "jsval \<Rightarrow> string \<Rightarrow> jsval" where
  "property (JObj fs) name = (case map_of fs name of Some v \<Rightarrow> v | None \<Rightarrow> JUndefined)"
| "property v name = JUndefined"

fun media_property :: "world \<Rightarrow> found \<Rightarrow> (media \<Rightarrow> jsval) \<Rightarrow> string \<Rightarrow> jsval" where
  "media_property w (Handle m) field name = field (heap w m)"
| "media_property w (Builtin b) field name = JUndefined"
| "media_property w (Inherited p v) field name = property v name"
| "media_property w Missing field name = JUndefined"

text \<open>
  \<open>media._duration = value\<close> and \<open>media._position = value\<close>: on a handle the cached
  field; on a built-in a new property of that built-in; on a value found on the
  prototype, a property of that value when it is a plain object (the object is modelled
  by its value, there where it was found). On a primitive the assignment does nothing
  (the files are not in strict mode, where it would throw); on a function or an error
  object it adds a property that the modules never read and the model does not keep.
\<close>

definition put_on_prototype :: "string \<Rightarrow> jsval \<Rightarrow> world \<Rightarrow> world" where
  "put_on_prototype p v w =
     (if p = ''_duration''
      then w\<lparr>assigned_duration := (assigned_duration w)(''__proto__'' \<mapsto> v)\<rparr>
      else w\<lparr>assigned_position := (assigned_position w)(''__proto__'' \<mapsto> v)\<rparr>)"

fun assign_duration :: "found \<Rightarrow> jsval \<Rightarrow> world \<Rightarrow> world" where
  "assign_duration (Handle m) v w = update_media m (\<lambda>x. x\<lparr>duration := v\<rparr>) w"
| "assign_duration (Builtin b) v w = w\<lparr>assigned_duration := (assigned_duration w)(b \<mapsto> v)\<rparr>"
| "assign_duration (Inherited p (JObj fs)) v w =
     put_on_prototype p (JObj ((''_duration'', v) # fs)) w"
| "assign_duration (Inherited p x) v w = w"
| "assign_duration Missing v w = w"

fun assign_position :: "found \<Rightarrow> jsval \<Rightarrow> world \<Rightarrow> world" where
  "assign_position (Handle m) v w = update_media m (\<lambda>x. x\<lparr>position := v\<rparr>) w"
| "assign_position (Builtin b) v w = w\<lparr>assigned_position := (assigned_position w)(b \<mapsto> v)\<rparr>"
| "assign_position (Inherited p (JObj fs)) v w =
     put_on_prototype p (JObj ((''_position'', v) # fs)) w"
| "assign_position (Inherited p x) v w = w"
| "assign_position Missing v w = w"

section \<open>Status dispatch\<close>

text \<open>
  \<open>NocSonicMedia.onStatus\<close> of \<open>www/NocSonicMedia.js\<close> (the bridge module). The id is
  a string, the key of the lookup.
\<close>

definition bridge_onStatus :: "host \<Rightarrow> string \<Rightarrow> jsval \<Rightarrow> jsval \<Rightarrow> unit js" where
  "bridge_onStatus h i msgType val w =
     (\<lambda>media.
        if truthy media then
          (if strict_eq_num msgType MEDIA_STATE then
             andThen (guarded_call (media_property w media statusCallback ''statusCallback'') [val])
               (\<lambda>_. if loose_eq_num h val MEDIA_STOPPED
                     then (\<lambda>w'. guarded_call
                             (media_property w' media successCallback ''successCallback'') [] w')
                     else ret ()) w
           else if strict_eq_num msgType MEDIA_DURATION then
             modify (assign_duration media val) w
           else if strict_eq_num msgType MEDIA_ERROR then
             guarded_call (media_property w media errorCallback ''errorCallback'') [val] w
           else if strict_eq_num msgType MEDIA_POSITION then
             modify (assign_position media (JNum (ToNumber h val))) w
           else console_error (Unhandled msgType) w)
        else console_error (UnknownMedia i) w) (lookup w i)"

text \<open>
  \<open>NocSonicMedia.onStatus\<close> of the second module (the local one, on an audio element):
  the same function, with \<open>===\<close> where the bridge module has \<open>==\<close>.
\<close>

definition local_onStatus :: "host \<Rightarrow> string \<Rightarrow> jsval \<Rightarrow> jsval \<Rightarrow> unit js" where
  "local_onStatus h i msgType val w =
     (\<lambda>media.
        if truthy media then
          (if strict_eq_num msgType MEDIA_STATE then
             andThen (guarded_call (media_property w media statusCallback ''statusCallback'') [val])
               (\<lambda>_. if strict_eq_num val MEDIA_STOPPED
                     then (\<lambda>w'. guarded_call
                             (media_property w' media successCallback ''successCallback'') [] w')
                     else ret ()) w
           else if strict_eq_num msgType MEDIA_DURATION then
             modify (assign_duration media val) w
           else if strict_eq_num msgType MEDIA_ERROR then
             guarded_call (media_property w media errorCallback ''errorCallback'') [val] w
           else if strict_eq_num msgType MEDIA_POSITION then
             modify (assign_position media (JNum (ToNumber h val))) w
           else console_error (Unhandled msgType) w)
        else console_error (UnknownMedia i) w) (lookup w i)"

section \<open>Argument checking\<close>

text \<open>
  Modelled from the spec: \<open>cordova/argscheck\<close> is required by both modules and is not
  among the plugin's files. The spec calls it "an argument-shape validator that raises
  descriptively on mismatched call signatures"; the signature strings \<open>'sFFF'\<close> and
  \<open>'SFFF'\<close> are the modules' own. The letters follow Cordova's convention: a letter names
  the type of the argument at its position (\<open>S\<close> String, \<open>F\<close> Function, ...), an upper-case
  letter also accepts \<open>null\<close> and \<open>undefined\<close>, a lower-case letter makes the argument
  required, \<open>*\<close> accepts anything. The first mismatch raises a TypeError whose message
  names the parameter, the expected type and the type found. Checks are taken to be
  enabled (Cordova's default); the line the validator writes to the console before it
  throws is left out.
\<close>

fun typeName :: "jsval \<Rightarrow> string" where
  "typeName JUndefined = ''Undefined''"
| "typeName JNull = ''Null''"
| "typeName (JBool b) = ''Boolean''"
| "typeName (JNum n) = ''Number''"
| "typeName (JStr s) = ''String''"
| "typeName (JObj fs) = ''Object''"
| "typeName (JFun k) = ''Function''"
| "typeName (JErr n m) = ''Error''"

definition typeMap :: "char \<Rightarrow> string option" where
  "typeMap = map_of
     [(CHR ''A'', ''Array''), (CHR ''D'', ''Date''), (CHR ''N'', ''Number''),
      (CHR ''S'', ''String''), (CHR ''F'', ''Function''), (CHR ''O'', ''Object'')]"

definition toUpperCase :: "char \<Rightarrow> char" where
  "toUpperCase c =
     (case map_of (zip ''abcdefghijklmnopqrstuvwxyz'' ''ABCDEFGHIJKLMNOPQRSTUVWXYZ'') c of
        Some u \<Rightarrow> u | None \<Rightarrow> c)"

text \<open>\<open>args[i]\<close>: \<open>undefined\<close> past the end.\<close>

definition nth_arg :: "jsval list \<Rightarrow> nat \<Rightarrow> jsval" where
  "nth_arg args i = (if i < length args then args ! i else JUndefined)"

definition wrong_type :: "string \<Rightarrow> string \<Rightarrow> string \<Rightarrow> string \<Rightarrow> jsval" where
  "wrong_type param functionName expected got =
     TypeError (''Wrong type for parameter '' @ [CHR 0x22] @ param @ [CHR 0x22] @ '' of ''
       @ functionName @ '': Expected '' @ expected @ '', but got '' @ got @ ''.'')"

text \<open>The loop over the signature; the result is the error thrown, if any.\<close>

fun checkArgs_from :: "nat \<Rightarrow> string \<Rightarrow> string \<Rightarrow> string list \<Rightarrow> jsval list \<Rightarrow> jsval option" where
  "checkArgs_from i [] functionName params args = None"
| "checkArgs_from i (c # cs) functionName params args =
     (let cUpper = toUpperCase c; arg = nth_arg args i in
      if c = CHR ''*'' then checkArgs_from (Suc i) cs functionName params args
      else if (arg = JNull \<or> arg = JUndefined) \<and> c = cUpper
        then checkArgs_from (Suc i) cs functionName params args
      else if Some (typeName arg) \<noteq> typeMap cUpper
        then Some (wrong_type (if i < length params then params ! i else ''undefined'')
               functionName
               (case typeMap cUpper of Some t \<Rightarrow> t | None \<Rightarrow> ''undefined'')
               (typeName arg))
      else checkArgs_from (Suc i) cs functionName params args)"

definition checkArgs :: "string \<Rightarrow> string \<Rightarrow> jsval list \<Rightarrow> jsval option" where
  "checkArgs spec functionName args =
     checkArgs_from 0 spec functionName
       [''src'', ''successCallback'', ''errorCallback'', ''statusCallback''] args"

section \<open>The bridge module (\<open>www/NocSonicMedia.js\<close>)\<close>

text \<open>
  \<open>exec\<close> hands a request to the native side and returns; the answer comes later, if
  ever. The bootstrap at the end of the file (the message channel and
  \<open>onMessageFromNative\<close>, which passes a status message on to \<open>onStatus\<close>) is not
  modelled: a status message arrives as a call of \<open>onStatus\<close>.
\<close>

definition exec :: "cont \<Rightarrow> jsval \<Rightarrow> string \<Rightarrow> string \<Rightarrow> jsval list \<Rightarrow> unit js" where
  "exec s f service action args =
     modify (\<lambda>w. w\<lparr>outbox := outbox w @ [Exec s f service action args]\<rparr>)"

text \<open>
  The constructor. \<open>uuid\<close> is what \<open>utils.createUUID()\<close> returns in this call, \<open>args\<close> the
  list of arguments; \<open>new\<close> allocates the object at the next free reference.
\<close>

definition new_media :: "string \<Rightarrow> jsval list \<Rightarrow> media" where
  "new_media uuid args =
     \<lparr>media_id = uuid, src = nth_arg args 0, successCallback = nth_arg args 1,
      errorCallback = nth_arg args 2, statusCallback = nth_arg args 3,
      duration = JNum (Fin (- 1)), position = JNum (Fin (- 1)), node = None\<rparr>"

definition register :: "string \<Rightarrow> jsval list \<Rightarrow> world \<Rightarrow> world" where
  "register uuid args w =
     w\<lparr>mediaObjects := (mediaObjects w)(uuid \<mapsto> nextRef w),
       heap := (heap w)(nextRef w := new_media uuid args),
       nextRef := Suc (nextRef w)\<rparr>"

definition bridge_NocSonicMedia :: "string \<Rightarrow> jsval list \<Rightarrow> ref js" where
  "bridge_NocSonicMedia uuid args w =
     (case checkArgs ''sFFF'' ''NocSonicMedia'' args of
        Some e \<Rightarrow> throw e w
      | None \<Rightarrow>
          (let this = nextRef w in
           andThen
             (\<lambda>w'. exec NoCallback (errorCallback (heap w' this)) ''NocSonicMedia'' ''create''
                      [JStr (media_id (heap w' this)), src (heap w' this)] w')
             (\<lambda>_. ret this) (register uuid args w)))"

text \<open>\<open>NocSonicMedia.get\<close>: the registry's entry for an id, \<open>None\<close> for \<open>undefined\<close>.\<close>

definition bridge_get :: "string \<Rightarrow> ref option js" where
  "bridge_get i w = ret (mediaObjects w i) w"

definition bridge_play :: "ref \<Rightarrow> jsval \<Rightarrow> unit js" where
  "bridge_play this options w =
     exec NoCallback JNull ''NocSonicMedia'' ''startPlayingAudio''
       [JStr (media_id (heap w this)), src (heap w this), options] w"

definition bridge_stop :: "ref \<Rightarrow> unit js" where
  "bridge_stop this w =
     exec (StopAck this) (errorCallback (heap w this)) ''NocSonicMedia'' ''stopPlayingAudio''
       [JStr (media_id (heap w this))] w"

definition bridge_seekTo :: "ref \<Rightarrow> jsval \<Rightarrow> unit js" where
  "bridge_seekTo this milliseconds w =
     exec (SeekAck this) (errorCallback (heap w this)) ''NocSonicMedia'' ''seekToAudio''
       [JStr (media_id (heap w this)), milliseconds] w"

definition bridge_pause :: "ref \<Rightarrow> unit js" where
  "bridge_pause this w =
     exec NoCallback (errorCallback (heap w this)) ''NocSonicMedia'' ''pausePlayingAudio''
       [JStr (media_id (heap w this))] w"

definition bridge_getDuration :: "ref \<Rightarrow> jsval js" where
  "bridge_getDuration this w = ret (duration (heap w this)) w"

definition bridge_getCurrentPosition :: "ref \<Rightarrow> jsval \<Rightarrow> jsval \<Rightarrow> unit js" where
  "bridge_getCurrentPosition this success fail w =
     exec (PositionAck this success) fail ''NocSonicMedia'' ''getCurrentPositionAudio''
       [JStr (media_id (heap w this))] w"

definition bridge_startRecord :: "ref \<Rightarrow> unit js" where
  "bridge_startRecord this w =
     exec NoCallback (errorCallback (heap w this)) ''NocSonicMedia'' ''startRecordingAudio''
       [JStr (media_id (heap w this)), src (heap w this)] w"

definition bridge_stopRecord :: "ref \<Rightarrow> unit js" where
  "bridge_stopRecord this w =
     exec NoCallback (errorCallback (heap w this)) ''NocSonicMedia'' ''stopRecordingAudio''
       [JStr (media_id (heap w this))] w"

definition bridge_release :: "ref \<Rightarrow> unit js" where
  "bridge_release this w =
     exec NoCallback (errorCallback (heap w this)) ''NocSonicMedia'' ''release''
       [JStr (media_id (heap w this))] w"

definition bridge_setVolume :: "ref \<Rightarrow> jsval \<Rightarrow> unit js" where
  "bridge_setVolume this vol w =
     exec NoCallback JNull ''NocSonicMedia'' ''setVolume''
       [JStr (media_id (heap w this)), vol] w"

text \<open>
  The native side answering a request: it runs the request's success function with a
  payload, or its error function when there is one.
\<close>

definition exec_success :: "cont \<Rightarrow> jsval \<Rightarrow> unit js" where
  "exec_success s p =
     (case s of
        NoCallback \<Rightarrow> ret ()
      | StopAck me \<Rightarrow> modify (update_media me (\<lambda>x. x\<lparr>position := JNum (Fin 0)\<rparr>))
      | SeekAck me \<Rightarrow> modify (update_media me (\<lambda>x. x\<lparr>position := p\<rparr>))
      | PositionAck me success \<Rightarrow>
          andThen (modify (update_media me (\<lambda>x. x\<lparr>position := p\<rparr>)))
            (\<lambda>_. call success [p]))"

definition exec_fail :: "jsval \<Rightarrow> jsval \<Rightarrow> unit js" where
  "exec_fail f p = guarded_call f [p]"

section \<open>The local module (on an audio element)\<close>

text \<open>
  \<open>createNode\<close>: \<open>new Audio()\<close> may throw; the five handlers it attaches are the
  functions \<open>node_on...\<close> below, run when the element fires the event. A new element has
  no source, is paused at time 0 and has volume 1.
\<close>

definition createNode :: "host \<Rightarrow> ref \<Rightarrow> audio js" where
  "createNode h m w =
     (case Audio_throws h of
        Some e \<Rightarrow> throw e w
      | None \<Rightarrow>
          ret \<lparr>a_src = (if ToBoolean (src (heap w m)) then Some (src (heap w m)) else None),
               currentTime = Fin 0, volume = JNum (Fin 1), paused = True\<rparr> w)"

definition node_onloadstart :: "host \<Rightarrow> ref \<Rightarrow> unit js" where
  "node_onloadstart h m w =
     local_onStatus h (media_id (heap w m)) (JNum MEDIA_STATE) (JNum MEDIA_STARTING) w"

definition node_onplaying :: "host \<Rightarrow> ref \<Rightarrow> unit js" where
  "node_onplaying h m w =
     local_onStatus h (media_id (heap w m)) (JNum MEDIA_STATE) (JNum MEDIA_RUNNING) w"

text \<open>\<open>e.target.duration || -1\<close>\<close>

definition duration_or_minus_one :: "jsnum \<Rightarrow> jsval" where
  "duration_or_minus_one d = (if ToBoolean (JNum d) then JNum d else JNum (Fin (- 1)))"

definition node_ondurationchange :: "host \<Rightarrow> ref \<Rightarrow> jsnum \<Rightarrow> unit js" where
  "node_ondurationchange h m d w =
     local_onStatus h (media_id (heap w m)) (JNum MEDIA_DURATION) (duration_or_minus_one d) w"

text \<open>\<open>x.code\<close>: a TypeError on \<open>null\<close> and \<open>undefined\<close>, \<open>undefined\<close> where there is no such property.\<close>

fun get_code :: "jsval \<Rightarrow> jsval js" where
  "get_code JUndefined = throw (TypeError ''Cannot read properties of undefined'')"
| "get_code JNull = throw (TypeError ''Cannot read properties of null'')"
| "get_code (JObj fs) = ret (case map_of fs ''code'' of Some v \<Rightarrow> v | None \<Rightarrow> JUndefined)"
| "get_code v = ret JUndefined"

definition node_onerror :: "host \<Rightarrow> ref \<Rightarrow> jsval \<Rightarrow> unit js" where
  "node_onerror h m error =
     andThen (get_code error)
       (\<lambda>c w. local_onStatus h (media_id (heap w m)) (JNum MEDIA_ERROR)
                (if strict_eq_num c (MEDIA_ERR_SRC_NOT_SUPPORTED h)
                 then JObj [(''code'', JNum (MEDIA_ERR_ABORTED h))] else error) w)"

definition node_onended :: "host \<Rightarrow> ref \<Rightarrow> unit js" where
  "node_onended h m w =
     local_onStatus h (media_id (heap w m)) (JNum MEDIA_STATE) (JNum MEDIA_STOPPED) w"

text \<open>\<open>this.node = createNode(this)\<close>\<close>

definition assign_node :: "host \<Rightarrow> ref \<Rightarrow> unit js" where
  "assign_node h this =
     andThen (createNode h this) (\<lambda>n. modify (update_media this (\<lambda>x. x\<lparr>node := Some n\<rparr>)))"

definition report_aborted :: "host \<Rightarrow> ref \<Rightarrow> unit js" where
  "report_aborted h this w =
     local_onStatus h (media_id (heap w this)) (JNum MEDIA_ERROR)
       (JObj [(''code'', JNum (MEDIA_ERR_ABORTED h))]) w"

definition local_NocSonicMedia :: "host \<Rightarrow> string \<Rightarrow> jsval list \<Rightarrow> ref js" where
  "local_NocSonicMedia h uuid args w =
     (case checkArgs ''SFFF'' ''NocSonicMedia'' args of
        Some e \<Rightarrow> throw e w
      | None \<Rightarrow>
          (let this = nextRef w in
           andThen
             (\<lambda>w'. local_onStatus h (media_id (heap w' this)) (JNum MEDIA_STATE)
                      (JNum MEDIA_STARTING) w')
             (\<lambda>_. andThen (tryCatch (assign_node h this) (\<lambda>err. report_aborted h this))
                     (\<lambda>_. ret this))
             (register uuid args w)))"

text \<open>
  \<open>this.node.f(...)\<close>, \<open>this.node.p\<close> and \<open>this.node.p = v\<close>: a TypeError when
  \<open>this.node\<close> is \<open>undefined\<close>; otherwise the element may throw, as the host says.
\<close>

definition with_node :: "ref \<Rightarrow> (audio \<Rightarrow> 'a js) \<Rightarrow> 'a js" where
  "with_node this f w =
     (case node (heap w this) of
        None \<Rightarrow> throw (TypeError ''Cannot read properties of undefined'') w
      | Some n \<Rightarrow> f n w)"

definition element_do :: "host \<Rightarrow> ref \<Rightarrow> element_op \<Rightarrow> (audio \<Rightarrow> audio) \<Rightarrow> unit js" where
  "element_do h this opn f =
     with_node this
       (\<lambda>n. case element_throws h opn n of
              Some e \<Rightarrow> throw e
            | None \<Rightarrow> modify (update_media this (\<lambda>x. x\<lparr>node := Some (f n)\<rparr>)))"

definition local_play :: "host \<Rightarrow> ref \<Rightarrow> unit js" where
  "local_play h this =
     andThen
       (\<lambda>w. if node (heap w this) = None
            then tryCatch (assign_node h this) (\<lambda>err. report_aborted h this) w
            else ret () w)
       (\<lambda>_. element_do h this ElPlay (\<lambda>n. n\<lparr>paused := False\<rparr>))"

definition report_error :: "host \<Rightarrow> ref \<Rightarrow> jsval \<Rightarrow> unit js" where
  "report_error h this err w =
     local_onStatus h (media_id (heap w this)) (JNum MEDIA_ERROR) err w"

text \<open>\<open>milliseconds / 1000\<close>\<close>

fun divide_by_1000 :: "jsnum \<Rightarrow> jsnum" where
  "divide_by_1000 (Fin a) = Fin (a / 1000)"
| "divide_by_1000 n = n"

definition local_seekTo :: "host \<Rightarrow> ref \<Rightarrow> jsval \<Rightarrow> unit js" where
  "local_seekTo h this milliseconds =
     tryCatch
       (element_do h this (ElSetCurrentTime (divide_by_1000 (ToNumber h milliseconds)))
          (\<lambda>n. n\<lparr>currentTime := divide_by_1000 (ToNumber h milliseconds)\<rparr>))
       (report_error h this)"

definition local_pause :: "host \<Rightarrow> ref \<Rightarrow> unit js" where
  "local_pause h this =
     tryCatch
       (andThen (element_do h this ElPause (\<lambda>n. n\<lparr>paused := True\<rparr>))
          (\<lambda>_ w. local_onStatus h (media_id (heap w this)) (JNum MEDIA_STATE)
                   (JNum MEDIA_PAUSED) w))
       (report_error h this)"

definition local_stop :: "host \<Rightarrow> ref \<Rightarrow> unit js" where
  "local_stop h this =
     tryCatch
       (andThen (local_pause h this)
          (\<lambda>_. andThen (local_seekTo h this (JNum (Fin 0)))
             (\<lambda>_ w. local_onStatus h (media_id (heap w this)) (JNum MEDIA_STATE)
                      (JNum MEDIA_STOPPED) w)))
       (report_error h this)"

definition local_getDuration :: "ref \<Rightarrow> jsval js" where
  "local_getDuration this w = ret (duration (heap w this)) w"

definition local_getCurrentPosition :: "host \<Rightarrow> ref \<Rightarrow> jsval \<Rightarrow> jsval \<Rightarrow> unit js" where
  "local_getCurrentPosition h this success fail =
     tryCatch
       (andThen
          (with_node this
             (\<lambda>n. case element_throws h ElGetCurrentTime n of
                    Some e \<Rightarrow> throw e
                  | None \<Rightarrow> ret (currentTime n)))
          (\<lambda>p. andThen
                 (\<lambda>w. local_onStatus h (media_id (heap w this)) (JNum MEDIA_POSITION) (JNum p) w)
                 (\<lambda>_. call success [JNum p])))
       (\<lambda>err. call fail [err])"

definition local_startRecord :: "host \<Rightarrow> ref \<Rightarrow> unit js" where
  "local_startRecord h this w =
     local_onStatus h (media_id (heap w this)) (JNum MEDIA_ERROR) (JStr ''Not supported'') w"

definition local_stopRecord :: "host \<Rightarrow> ref \<Rightarrow> unit js" where
  "local_stopRecord h this w =
     local_onStatus h (media_id (heap w this)) (JNum MEDIA_ERROR) (JStr ''Not supported'') w"

text \<open>\<open>delete this.node\<close> removes the property and does not throw.\<close>

definition local_release :: "host \<Rightarrow> ref \<Rightarrow> unit js" where
  "local_release h this =
     tryCatch (modify (update_media this (\<lambda>x. x\<lparr>node := None\<rparr>))) (report_error h this)"

definition local_setVolume :: "host \<Rightarrow> ref \<Rightarrow> jsval \<Rightarrow> unit js" where
  "local_setVolume h this vol =
     element_do h this (ElSetVolume vol) (\<lambda>n. n\<lparr>volume := vol\<rparr>)"

section \<open>Runs of a module\<close>

text \<open>
  The module starts with an empty registry (\<open>var mediaObjects = {}\<close>). Everything that
  happens to it afterwards is one of the steps below: the application calling the
  constructor, a method or \<open>onStatus\<close>, the native side answering a request (bridge
  module), the audio element of a handle firing an event (local module). A step that
  throws leaves the state it reached; the run goes on with the next step.
\<close>

definition no_media :: media where
  "no_media =
     \<lparr>media_id = [], src = JUndefined, successCallback = JUndefined,
      errorCallback = JUndefined, statusCallback = JUndefined, duration = JUndefined,
      position = JUndefined, node = None\<rparr>"

definition initial_world :: world where
  "initial_world =
     \<lparr>mediaObjects = (\<lambda>i. None), heap = (\<lambda>r. no_media), nextRef = 0, trace = [],
      console = [], outbox = [], assigned_duration = (\<lambda>b. None),
      assigned_position = (\<lambda>b. None)\<rparr>"

datatype bridge_op =
    B_new string "jsval list"
  | B_play ref jsval
  | B_stop ref
  | B_seekTo ref jsval
  | B_pause ref
  | B_getDuration ref
  | B_getCurrentPosition ref jsval jsval
  | B_startRecord ref
  | B_stopRecord ref
  | B_release ref
  | B_setVolume ref jsval
  | B_onStatus string jsval jsval
  | B_exec_success cont jsval
  | B_exec_fail jsval jsval

fun bridge_step :: "host \<Rightarrow> bridge_op \<Rightarrow> world \<Rightarrow> world" where
  "bridge_step h (B_new uuid args) w = snd (bridge_NocSonicMedia uuid args w)"
| "bridge_step h (B_play this options) w = snd (bridge_play this options w)"
| "bridge_step h (B_stop this) w = snd (bridge_stop this w)"
| "bridge_step h (B_seekTo this ms) w = snd (bridge_seekTo this ms w)"
| "bridge_step h (B_pause this) w = snd (bridge_pause this w)"
| "bridge_step h (B_getDuration this) w = snd (bridge_getDuration this w)"
| "bridge_step h (B_getCurrentPosition this s f) w = snd (bridge_getCurrentPosition this s f w)"
| "bridge_step h (B_startRecord this) w = snd (bridge_startRecord this w)"
| "bridge_step h (B_stopRecord this) w = snd (bridge_stopRecord this w)"
| "bridge_step h (B_release this) w = snd (bridge_release this w)"
| "bridge_step h (B_setVolume this v) w = snd (bridge_setVolume this v w)"
| "bridge_step h (B_onStatus i msgType v) w = snd (bridge_onStatus h i msgType v w)"
| "bridge_step h (B_exec_success s p) w = snd (exec_success s p w)"
| "bridge_step h (B_exec_fail f p) w = snd (exec_fail f p w)"

fun bridge_run :: "host \<Rightarrow> bridge_op list \<Rightarrow> world \<Rightarrow> world" where
  "bridge_run h [] w = w"
| "bridge_run h (a # as) w = bridge_run h as (bridge_step h a w)"

datatype local_op =
    L_new string "jsval list"
  | L_play ref
  | L_stop ref
  | L_seekTo ref jsval
  | L_pause ref
  | L_getDuration ref
  | L_getCurrentPosition ref jsval jsval
  | L_startRecord ref
  | L_stopRecord ref
  | L_release ref
  | L_setVolume ref jsval
  | L_onStatus string jsval jsval
  | L_loadstart ref
  | L_playing ref
  | L_durationchange ref jsnum
  | L_error ref jsval
  | L_ended ref

fun local_step :: "host \<Rightarrow> local_op \<Rightarrow> world \<Rightarrow> world" where
  "local_step h (L_new uuid args) w = snd (local_NocSonicMedia h uuid args w)"
| "local_step h (L_play this) w = snd (local_play h this w)"
| "local_step h (L_stop this) w = snd (local_stop h this w)"
| "local_step h (L_seekTo this ms) w = snd (local_seekTo h this ms w)"
| "local_step h (L_pause this) w = snd (local_pause h this w)"
| "local_step h (L_getDuration this) w = snd (local_getDuration this w)"
| "local_step h (L_getCurrentPosition this s f) w = snd (local_getCurrentPosition h this s f w)"
| "local_step h (L_startRecord this) w = snd (local_startRecord h this w)"
| "local_step h (L_stopRecord this) w = snd (local_stopRecord h this w)"
| "local_step h (L_release this) w = snd (local_release h this w)"
| "local_step h (L_setVolume this v) w = snd (local_setVolume h this v w)"
| "local_step h (L_onStatus i msgType v) w = snd (local_onStatus h i msgType v w)"
| "local_step h (L_loadstart m) w = snd (node_onloadstart h m w)"
| "local_step h (L_playing m) w = snd (node_onplaying h m w)"
| "local_step h (L_durationchange m d) w = snd (node_ondurationchange h m d w)"
| "local_step h (L_error m e) w = snd (node_onerror h m e w)"
| "local_step h (L_ended m) w = snd (node_onended h m w)"

fun local_run :: "host \<Rightarrow> local_op list \<Rightarrow> world \<Rightarrow> world" where
  "local_run h [] w = w"
| "local_run h (a # as) w = local_run h as (local_step h a w)"

section \<open>Vocabulary of the properties\<close>

text \<open>
  A callback field holds a function, \<open>null\<close> or \<open>undefined\<close>: that is what the
  constructor's argument check lets through. \<open>invocation f args\<close> is what
  \<open>f && f(args)\<close> then adds to the trace: one call when \<open>f\<close> is a function, nothing
  when it is absent.
\<close>

definition optional_function :: "jsval \<Rightarrow> bool" where
  "optional_function v =
     (case v of JUndefined \<Rightarrow> True | JNull \<Rightarrow> True | JFun k \<Rightarrow> True | _ \<Rightarrow> False)"

definition optional_string :: "jsval \<Rightarrow> bool" where
  "optional_string v =
     (case v of JUndefined \<Rightarrow> True | JNull \<Rightarrow> True | JStr s \<Rightarrow> True | _ \<Rightarrow> False)"

definition is_string :: "jsval \<Rightarrow> bool" where
  "is_string v = (case v of JStr s \<Rightarrow> True | _ \<Rightarrow> False)"

definition invocation :: "jsval \<Rightarrow> jsval list \<Rightarrow> event list" where
  "invocation f args = (case f of JFun k \<Rightarrow> [Invoke k args] | _ \<Rightarrow> [])"

text \<open>
  What the two signature strings let through: \<open>'sFFF'\<close> of the bridge module wants a
  string first, \<open>'SFFF'\<close> of the local module a string, \<open>null\<close> or \<open>undefined\<close>; both
  want a function, \<open>null\<close> or \<open>undefined\<close> in the three places after it.
\<close>

definition bridge_signature :: "jsval list \<Rightarrow> bool" where
  "bridge_signature args =
     (is_string (nth_arg args 0) \<and> optional_function (nth_arg args 1)
      \<and> optional_function (nth_arg args 2) \<and> optional_function (nth_arg args 3))"

definition local_signature :: "jsval list \<Rightarrow> bool" where
  "local_signature args =
     (optional_string (nth_arg args 0) \<and> optional_function (nth_arg args 1)
      \<and> optional_function (nth_arg args 2) \<and> optional_function (nth_arg args 3))"

text \<open>The error of \<open>this.node.x\<close> when the handle has no element.\<close>

definition undefined_node :: jsval where
  "undefined_node = TypeError ''Cannot read properties of undefined''"

text \<open>
  What a step may change and what it may not. \<open>registry_view\<close> is the registry, the
  next free reference and the id of every object; \<open>stable_view\<close> adds every object's
  cached duration.
\<close>

definition registry_view :: "world \<Rightarrow> (string \<Rightarrow> ref option) \<times> ref \<times> (ref \<Rightarrow> string)" where
  "registry_view w = (mediaObjects w, nextRef w, (\<lambda>r. media_id (heap w r)))"

definition stable_view ::
  "world \<Rightarrow> (string \<Rightarrow> ref option) \<times> ref \<times> (ref \<Rightarrow> string \<times> jsval)" where
  "stable_view w = (mediaObjects w, nextRef w, (\<lambda>r. (media_id (heap w r), duration (heap w r))))"

named_theorems stable

text \<open>
  A run draws fresh ids when every constructor call in it gets, from
  \<open>utils.createUUID()\<close>, an id that is not in the registry at that moment.
\<close>

fun bridge_fresh :: "host \<Rightarrow> bridge_op list \<Rightarrow> world \<Rightarrow> bool" where
  "bridge_fresh h [] w = True"
| "bridge_fresh h (a # as) w =
     ((case a of B_new uuid args \<Rightarrow> mediaObjects w uuid = None | _ \<Rightarrow> True)
      \<and> bridge_fresh h as (bridge_step h a w))"

fun local_fresh :: "host \<Rightarrow> local_op list \<Rightarrow> world \<Rightarrow> bool" where
  "local_fresh h [] w = True"
| "local_fresh h (a # as) w =
     ((case a of L_new uuid args \<Rightarrow> mediaObjects w uuid = None | _ \<Rightarrow> True)
      \<and> local_fresh h as (local_step h a w))"

text \<open>
  The values carried by the Duration messages that a step, and a run, deliver through
  \<open>onStatus\<close> for the id \<open>i\<close>: by a direct call of \<open>onStatus\<close> or, in the local
  module, by the \<open>durationchange\<close> handler of an element. \<open>last_or d xs\<close> is the last
  of them, \<open>d\<close> when there is none.
\<close>

definition bridge_delivers :: "string \<Rightarrow> bridge_op \<Rightarrow> jsval list" where
  "bridge_delivers i a =
     (case a of
        B_onStatus j msgType v \<Rightarrow>
          if j = i \<and> strict_eq_num msgType MEDIA_DURATION then [v] else []
      | _ \<Rightarrow> [])"

fun bridge_durations :: "string \<Rightarrow> bridge_op list \<Rightarrow> jsval list" where
  "bridge_durations i [] = []"
| "bridge_durations i (a # as) = bridge_delivers i a @ bridge_durations i as"

definition local_delivers :: "string \<Rightarrow> local_op \<Rightarrow> world \<Rightarrow> jsval list" where
  "local_delivers i a w =
     (case a of
        L_onStatus j msgType v \<Rightarrow>
          if j = i \<and> strict_eq_num msgType MEDIA_DURATION then [v] else []
      | L_durationchange m d \<Rightarrow>
          if media_id (heap w m) = i then [duration_or_minus_one d] else []
      | _ \<Rightarrow> [])"

fun local_durations :: "host \<Rightarrow> string \<Rightarrow> local_op list \<Rightarrow> world \<Rightarrow> jsval list" where
  "local_durations h i [] w = []"
| "local_durations h i (a # as) w =
     local_delivers i a w @ local_durations h i as (local_step h a w)"

definition last_or :: "'a \<Rightarrow> 'a list \<Rightarrow> 'a" where
  "last_or d xs = (if xs = [] then d else last xs)"

text \<open>Every registered reference is allocated and its object carries the key as id.\<close>

definition well_formed :: "world \<Rightarrow> bool" where
  "well_formed w =
     (\<forall>j r. mediaObjects w j = Some r \<longrightarrow> r < nextRef w \<and> media_id (heap w r) = j)"

text \<open>Examples: a host with an audio element that never throws, and one without \<open>Audio\<close>.\<close>

definition example_host :: host where
  "example_host =
     \<lparr>StringToNumber = (\<lambda>s. if s = ''4'' then Fin 4 else NaN), Audio_throws = None,
      element_throws = (\<lambda>opn n. None), MEDIA_ERR_ABORTED = Fin 1,
      MEDIA_ERR_SRC_NOT_SUPPORTED = Fin 4\<rparr>"

definition host_without_Audio :: host where
  "host_without_Audio =
     example_host\<lparr>Audio_throws := Some (JErr ''ReferenceError'' ''Audio is not defined'')\<rparr>"

text \<open>A host whose audio element throws from \<open>play()\<close>.\<close>

definition host_play_throws :: host where
  "host_play_throws =
     example_host\<lparr>element_throws :=
       (\<lambda>opn n. if opn = ElPlay then Some (JErr ''NotSupportedError'' []) else None)\<rparr>"

text \<open>One registered handle, reference 0, with the callbacks 1 (success), 2 (error), 3 (status).\<close>

definition example_world :: world where
  "example_world =
     register ''id-1'' [JStr ''track.mp3'', JFun 1, JFun 2, JFun 3] initial_world"

text \<open>
  The same after \<open>onStatus("__proto__", 2, {statusCallback: 5})\<close>: a Duration message
  for an id that no handle has.
\<close>

definition polluted_world :: world where
  "polluted_world =
     snd (bridge_onStatus example_host ''__proto__'' (JNum MEDIA_DURATION)
       (JObj [(''statusCallback'', JNum (Fin 5))]) example_world)"

text \<open>The local module after \<open>new NocSonicMedia("track.mp3", f1, f2, f3)\<close> and \<open>release()\<close>.\<close>

definition released_world :: "host \<Rightarrow> world" where
  "released_world h =
     snd (local_release h 0
       (snd (local_NocSonicMedia h ''id-1'' [JStr ''track.mp3'', JFun 1, JFun 2, JFun 3]
          initial_world)))"

text \<open>A run of each module after the first handle, with a second handle made on the way.\<close>

definition bridge_example_run :: "bridge_op list" where
  "bridge_example_run =
     [B_play 0 JUndefined, B_onStatus ''id-1'' (JNum MEDIA_DURATION) (JNum (Fin 12)),
      B_stop 0, B_exec_success (StopAck 0) JUndefined, B_release 0,
      B_new ''id-2'' [JStr ''other.mp3''],
      B_onStatus ''id-1'' (JNum MEDIA_DURATION) (JNum (Fin 15)),
      B_onStatus ''id-2'' (JNum MEDIA_DURATION) (JNum (Fin 99)),
      B_setVolume 0 (JNum (Fin 1))]"

definition local_example_run :: "local_op list" where
  "local_example_run =
     [L_play 0, L_durationchange 0 (Fin 12), L_pause 0, L_stop 0, L_release 0,
      L_setVolume 0 (JNum (Fin 1)), L_new ''id-2'' [],
      L_onStatus ''id-1'' (JNum MEDIA_DURATION) (JNum (Fin 15)),
      L_durationchange 1 NaN, L_seekTo 0 (JNum (Fin 1000))]"

section \<open>Properties of status dispatch\<close>

lemmas example_simps =
  example_world_def register_def initial_world_def new_media_def nth_arg_def
  optional_function_def invocation_def example_host_def

lemmas js_defs = ret_def throw_def andThen_def tryCatch_def modify_def update_media_def
  call_def guarded_call_def console_error_def strict_eq_num_def
  MEDIA_STATE_def MEDIA_DURATION_def MEDIA_POSITION_def MEDIA_ERROR_def
  MEDIA_STARTING_def MEDIA_RUNNING_def MEDIA_PAUSED_def MEDIA_STOPPED_def

lemmas local_defs = local_onStatus_def createNode_def assign_node_def report_aborted_def
  report_error_def with_node_def element_do_def local_play_def local_seekTo_def local_pause_def
  local_stop_def local_getCurrentPosition_def local_release_def local_setVolume_def
  local_NocSonicMedia_def checkArgs_def toUpperCase_def typeMap_def lookup_def

lemma lookup_registered: "mediaObjects w i = Some m \<Longrightarrow> lookup w i = Handle m"
  by (simp add: lookup_def)

lemma guarded_call_optional:
  "optional_function f \<Longrightarrow>
   guarded_call f args w = (Inr (), w\<lparr>trace := trace w @ invocation f args\<rparr>)"
  by (cases f)
    (simp_all add: optional_function_def guarded_call_def call_def ret_def invocation_def)

text \<open>
  C1. For a registered handle, a State message carrying the state \<open>n\<close> makes
  \<open>onStatus\<close> (of either module) return normally after invoking \<open>statusCallback(n)\<close>
  and then, exactly when \<open>n\<close> is Stopped (4), \<open>successCallback()\<close> once with no
  arguments; nothing else changes. For any other state only \<open>statusCallback\<close> is
  invoked. (A callback that is absent is skipped.)
\<close>

theorem onStatus_state:
  assumes "mediaObjects w i = Some m"
    and "optional_function (statusCallback (heap w m))"
    and "optional_function (successCallback (heap w m))"
  shows "bridge_onStatus h i (JNum MEDIA_STATE) (JNum n) w =
           (Inr (), w\<lparr>trace := trace w @ invocation (statusCallback (heap w m)) [JNum n]
              @ (if n = MEDIA_STOPPED then invocation (successCallback (heap w m)) [] else [])\<rparr>)
       \<and> local_onStatus h i (JNum MEDIA_STATE) (JNum n) w =
           (Inr (), w\<lparr>trace := trace w @ invocation (statusCallback (heap w m)) [JNum n]
              @ (if n = MEDIA_STOPPED then invocation (successCallback (heap w m)) [] else [])\<rparr>)"
  using assms
  by (simp add: bridge_onStatus_def local_onStatus_def lookup_registered strict_eq_num_def
      andThen_def guarded_call_optional ret_def MEDIA_STATE_def MEDIA_STOPPED_def)

theorem onStatus_state_witness:
  "mediaObjects example_world ''id-1'' = Some 0
   \<and> optional_function (statusCallback (heap example_world 0))
   \<and> optional_function (successCallback (heap example_world 0))
   \<and> trace (snd (bridge_onStatus example_host ''id-1'' (JNum MEDIA_STATE) (JNum MEDIA_STOPPED)
        example_world)) = [Invoke 3 [JNum (Fin 4)], Invoke 1 []]
   \<and> trace (snd (local_onStatus example_host ''id-1'' (JNum MEDIA_STATE) (JNum MEDIA_STOPPED)
        example_world)) = [Invoke 3 [JNum (Fin 4)], Invoke 1 []]
   \<and> trace (snd (bridge_onStatus example_host ''id-1'' (JNum MEDIA_STATE) (JNum MEDIA_PAUSED)
        example_world)) = [Invoke 3 [JNum (Fin 3)]]
   \<and> trace (snd (local_onStatus example_host ''id-1'' (JNum MEDIA_STATE) (JNum MEDIA_PAUSED)
        example_world)) = [Invoke 3 [JNum (Fin 3)]]"
  using onStatus_state [of example_world "''id-1''" 0 example_host MEDIA_STOPPED]
        onStatus_state [of example_world "''id-1''" 0 example_host MEDIA_PAUSED]
  by (simp add: example_simps MEDIA_STOPPED_def MEDIA_PAUSED_def)

text \<open>
  An id that is neither registered nor found on the prototype is logged and dropped:
  \<open>onStatus\<close> (of either module), whatever the message type and value, returns
  normally and changes nothing but the console, to which it writes one line.
\<close>

lemma lookup_missing:
  "mediaObjects w i = None \<Longrightarrow> i \<notin> set Object_prototype_names \<Longrightarrow>
   i \<noteq> ''_duration'' \<Longrightarrow> i \<noteq> ''_position'' \<Longrightarrow> lookup w i = Missing"
  by (simp add: lookup_def)

lemma onStatus_missing_id:
  assumes "lookup w i = Missing"
  shows "bridge_onStatus h i msgType v w =
           (Inr (), w\<lparr>console := console w @ [UnknownMedia i]\<rparr>)"
    and "local_onStatus h i msgType v w =
           (Inr (), w\<lparr>console := console w @ [UnknownMedia i]\<rparr>)"
  using assms
  by (simp_all add: bridge_onStatus_def local_onStatus_def console_error_def modify_def)

text \<open>
  An unregistered id that names a built-in of \<open>Object.prototype\<close> is not dropped: the
  built-in is taken for the media. No callback is invoked and no handle changes, but no
  line is written either, and a Duration or Position message leaves its value on the
  built-in.
\<close>

lemma guarded_call_undefined: "guarded_call JUndefined args w = (Inr (), w)"
  by (simp add: guarded_call_def ret_def)

lemma onStatus_builtin_id:
  assumes "mediaObjects w i = None" and "i \<in> set Object_prototype_names"
  shows "fst (bridge_onStatus h i msgType v w) = Inr ()
       \<and> trace (snd (bridge_onStatus h i msgType v w)) = trace w
       \<and> heap (snd (bridge_onStatus h i msgType v w)) = heap w
       \<and> fst (local_onStatus h i msgType v w) = Inr ()
       \<and> trace (snd (local_onStatus h i msgType v w)) = trace w
       \<and> heap (snd (local_onStatus h i msgType v w)) = heap w"
proof -
  have "lookup w i = Builtin i"
    using assms by (simp add: lookup_def)
  then show ?thesis
    by (simp add: bridge_onStatus_def local_onStatus_def guarded_call_undefined andThen_def
        ret_def modify_def console_error_def)
qed

text \<open>
  C3, where the code departs from it. With one handle registered under \<open>id-1\<close>, the
  ids \<open>__proto__\<close> and \<open>_duration\<close> are not in the registry. A Duration message for
  \<open>__proto__\<close> with the payload \<open>{statusCallback: 5}\<close> is not dropped: the lookup finds
  \<open>Object.prototype\<close> and the payload is assigned onto it. From then on
  \<open>mediaObjects["_duration"]\<close> is that payload, and a State message for \<open>_duration\<close>
  makes \<open>onStatus\<close> (of either module) evaluate \<open>media.statusCallback(value)\<close> with
  \<open>media.statusCallback\<close> the number 5: it throws a TypeError to its caller. (A message
  for \<open>toString\<close> writes no console line and, when it is a Duration message, leaves its
  value on the built-in function.)
\<close>

theorem onStatus_inherited_id_raises:
  "mediaObjects example_world ''__proto__'' = None
   \<and> mediaObjects polluted_world ''_duration'' = None
   \<and> lookup polluted_world ''_duration''
       = Inherited ''_duration'' (JObj [(''statusCallback'', JNum (Fin 5))])
   \<and> fst (bridge_onStatus example_host ''_duration'' (JNum MEDIA_STATE) (JNum MEDIA_STOPPED)
        polluted_world) = Inl (TypeError ''not a function'')
   \<and> fst (local_onStatus example_host ''_duration'' (JNum MEDIA_STATE) (JNum MEDIA_STOPPED)
        polluted_world) = Inl (TypeError ''not a function'')
   \<and> assigned_duration (snd (local_onStatus example_host ''__proto__'' (JNum MEDIA_DURATION)
        (JObj [(''statusCallback'', JNum (Fin 5))]) example_world)) ''__proto__''
       = Some (JObj [(''statusCallback'', JNum (Fin 5))])
   \<and> console (snd (bridge_onStatus example_host ''toString'' (JNum MEDIA_DURATION)
        (JNum (Fin 7)) example_world)) = []
   \<and> assigned_duration (snd (bridge_onStatus example_host ''toString'' (JNum MEDIA_DURATION)
        (JNum (Fin 7)) example_world)) ''toString'' = Some (JNum (Fin 7))"
  by (simp add: polluted_world_def bridge_onStatus_def local_onStatus_def lookup_def
      Object_prototype_names_def example_simps js_defs)

text \<open>
  C7. For a registered handle, an Error message with payload \<open>v\<close> (for instance
  \<open>{code: X}\<close>) makes \<open>onStatus\<close> (of either module) return normally after invoking
  \<open>errorCallback(v)\<close> once, with exactly that payload; the state is otherwise the same,
  so the cached duration and position are unchanged and neither \<open>successCallback\<close> nor
  \<open>statusCallback\<close> is invoked.
\<close>

theorem onStatus_error:
  assumes "mediaObjects w i = Some m"
    and "optional_function (errorCallback (heap w m))"
  shows "bridge_onStatus h i (JNum MEDIA_ERROR) v w =
           (Inr (), w\<lparr>trace := trace w @ invocation (errorCallback (heap w m)) [v]\<rparr>)
       \<and> local_onStatus h i (JNum MEDIA_ERROR) v w =
           (Inr (), w\<lparr>trace := trace w @ invocation (errorCallback (heap w m)) [v]\<rparr>)"
  using assms
  by (simp add: bridge_onStatus_def local_onStatus_def lookup_registered strict_eq_num_def
      guarded_call_optional MEDIA_STATE_def MEDIA_DURATION_def MEDIA_ERROR_def)

theorem onStatus_error_witness:
  "mediaObjects example_world ''id-1'' = Some 0
   \<and> optional_function (errorCallback (heap example_world 0))
   \<and> bridge_onStatus example_host ''id-1'' (JNum MEDIA_ERROR) (JObj [(''code'', JNum (Fin 3))])
        example_world
       = (Inr (), example_world\<lparr>trace := [Invoke 2 [JObj [(''code'', JNum (Fin 3))]]]\<rparr>)
   \<and> local_onStatus example_host ''id-1'' (JNum MEDIA_ERROR) (JObj [(''code'', JNum (Fin 3))])
        example_world
       = (Inr (), example_world\<lparr>trace := [Invoke 2 [JObj [(''code'', JNum (Fin 3))]]]\<rparr>)"
  using onStatus_error [of example_world "''id-1''" 0 example_host
          "JObj [(''code'', JNum (Fin 3))]"]
  by (simp add: example_simps)

text \<open>
  C9. The two \<open>onStatus\<close> functions differ on the Stopped test. For a registered
  handle with a status and a success callback, a State message whose value is the
  string \<open>"4"\<close> (which the engine converts to the number 4) makes the bridge module,
  comparing with \<open>==\<close>, invoke \<open>statusCallback("4")\<close> and then \<open>successCallback()\<close>,
  while the local module, comparing with \<open>===\<close>, invokes \<open>statusCallback("4")\<close> only.
  On the number 4 the two functions do the same.
\<close>

theorem onStatus_stopped_as_text:
  assumes "mediaObjects w i = Some m"
    and "statusCallback (heap w m) = JFun ks"
    and "successCallback (heap w m) = JFun kc"
    and "StringToNumber h ''4'' = Fin 4"
  shows "bridge_onStatus h i (JNum MEDIA_STATE) (JStr ''4'') w =
           (Inr (), w\<lparr>trace := trace w @ [Invoke ks [JStr ''4''], Invoke kc []]\<rparr>)
       \<and> local_onStatus h i (JNum MEDIA_STATE) (JStr ''4'') w =
           (Inr (), w\<lparr>trace := trace w @ [Invoke ks [JStr ''4'']]\<rparr>)
       \<and> bridge_onStatus h i (JNum MEDIA_STATE) (JNum (Fin 4)) w =
           local_onStatus h i (JNum MEDIA_STATE) (JNum (Fin 4)) w"
  using assms
  by (simp add: bridge_onStatus_def local_onStatus_def lookup_registered strict_eq_num_def
      andThen_def guarded_call_def call_def ret_def MEDIA_STATE_def MEDIA_STOPPED_def)

theorem onStatus_stopped_as_text_witness:
  "mediaObjects example_world ''id-1'' = Some 0
   \<and> statusCallback (heap example_world 0) = JFun 3
   \<and> successCallback (heap example_world 0) = JFun 1
   \<and> StringToNumber example_host ''4'' = Fin 4
   \<and> trace (snd (bridge_onStatus example_host ''id-1'' (JNum MEDIA_STATE) (JStr ''4'')
        example_world)) = [Invoke 3 [JStr ''4''], Invoke 1 []]
   \<and> trace (snd (local_onStatus example_host ''id-1'' (JNum MEDIA_STATE) (JStr ''4'')
        example_world)) = [Invoke 3 [JStr ''4'']]"
  using onStatus_stopped_as_text [of example_world "''id-1''" 0 3 1 example_host]
  by (simp add: example_simps)

section \<open>Properties of the local module's methods\<close>

text \<open>
  C5. For a handle of the local module that is registered under its id, every call
  of \<open>startRecord()\<close> or \<open>stopRecord()\<close> returns normally after one Error notification
  with the payload \<open>"Not supported"\<close>: \<open>errorCallback("Not supported")\<close> is invoked once
  when the handle has an error callback, and nothing else changes, so the audio element
  is not touched.
\<close>

theorem record_not_supported:
  assumes "mediaObjects w (media_id (heap w this)) = Some this"
    and "optional_function (errorCallback (heap w this))"
  shows "local_startRecord h this w =
           (Inr (), w\<lparr>trace := trace w
              @ invocation (errorCallback (heap w this)) [JStr ''Not supported'']\<rparr>)
       \<and> local_stopRecord h this w =
           (Inr (), w\<lparr>trace := trace w
              @ invocation (errorCallback (heap w this)) [JStr ''Not supported'']\<rparr>)"
  using assms
  by (simp add: local_startRecord_def local_stopRecord_def local_onStatus_def lookup_registered
      strict_eq_num_def guarded_call_optional MEDIA_STATE_def MEDIA_DURATION_def MEDIA_ERROR_def)

theorem record_not_supported_witness:
  "mediaObjects example_world (media_id (heap example_world 0)) = Some 0
   \<and> optional_function (errorCallback (heap example_world 0))
   \<and> local_startRecord example_host 0 example_world
       = (Inr (), example_world\<lparr>trace := [Invoke 2 [JStr ''Not supported'']]\<rparr>)
   \<and> local_stopRecord example_host 0 example_world
       = (Inr (), example_world\<lparr>trace := [Invoke 2 [JStr ''Not supported'']]\<rparr>)"
  using record_not_supported [of example_world 0 example_host]
  by (simp add: example_simps)

section \<open>Properties of the constructors\<close>

lemma typeName_String: "(typeName v = ''String'') = is_string v"
  by (cases v) (simp_all add: is_string_def)

lemma optional_function_iff:
  "optional_function v = (v = JNull \<or> v = JUndefined \<or> typeName v = ''Function'')"
  by (cases v) (simp_all add: optional_function_def)

lemma optional_string_iff:
  "optional_string v = (v = JNull \<or> v = JUndefined \<or> typeName v = ''String'')"
  by (cases v) (simp_all add: optional_string_def)

lemma is_string_not_absent: "is_string v \<Longrightarrow> v \<noteq> JNull \<and> v \<noteq> JUndefined"
  by (cases v) (simp_all add: is_string_def)

lemma toUpperCase_simps:
  "toUpperCase CHR ''s'' = CHR ''S''" "toUpperCase CHR ''S'' = CHR ''S''"
  "toUpperCase CHR ''F'' = CHR ''F''"
  by (simp_all add: toUpperCase_def)

lemma typeMap_simps:
  "typeMap CHR ''S'' = Some ''String''" "typeMap CHR ''F'' = Some ''Function''"
  by (simp_all add: typeMap_def)

lemma checkArgs_F:
  "checkArgs_from i (CHR ''F'' # cs) f ps args =
     (if optional_function (nth_arg args i) then checkArgs_from (Suc i) cs f ps args
      else Some (wrong_type (if i < length ps then ps ! i else ''undefined'') f ''Function''
                   (typeName (nth_arg args i))))"
  by (auto simp add: Let_def toUpperCase_simps typeMap_simps optional_function_iff)

lemma checkArgs_S:
  "checkArgs_from i (CHR ''S'' # cs) f ps args =
     (if optional_string (nth_arg args i) then checkArgs_from (Suc i) cs f ps args
      else Some (wrong_type (if i < length ps then ps ! i else ''undefined'') f ''String''
                   (typeName (nth_arg args i))))"
  by (auto simp add: Let_def toUpperCase_simps typeMap_simps optional_string_iff)

lemma checkArgs_s:
  "checkArgs_from i (CHR ''s'' # cs) f ps args =
     (if is_string (nth_arg args i) then checkArgs_from (Suc i) cs f ps args
      else Some (wrong_type (if i < length ps then ps ! i else ''undefined'') f ''String''
                   (typeName (nth_arg args i))))"
  by (auto simp add: Let_def toUpperCase_simps typeMap_simps typeName_String
      dest: is_string_not_absent)

lemma checkArgs_bridge:
  "checkArgs ''sFFF'' f args = None \<longleftrightarrow> bridge_signature args"
  by (auto simp add: checkArgs_def checkArgs_s checkArgs_F bridge_signature_def
      eval_nat_numeral simp del: checkArgs_from.simps(2))

lemma checkArgs_local:
  "checkArgs ''SFFF'' f args = None \<longleftrightarrow> local_signature args"
  by (auto simp add: checkArgs_def checkArgs_S checkArgs_F local_signature_def
      eval_nat_numeral simp del: checkArgs_from.simps(2))

lemma checkArgs_from_TypeError:
  "checkArgs_from i spec f ps args = Some e \<Longrightarrow> \<exists>msg. e = TypeError msg"
  by (induction i spec f ps args rule: checkArgs_from.induct)
    (auto simp: Let_def wrong_type_def split: if_splits)

lemma checkArgs_TypeError: "checkArgs spec f args = Some e \<Longrightarrow> \<exists>msg. e = TypeError msg"
  unfolding checkArgs_def by (rule checkArgs_from_TypeError)

lemma checkArgs_src_bridge:
  "\<not> is_string (nth_arg args 0) \<Longrightarrow>
   checkArgs ''sFFF'' f args = Some (wrong_type ''src'' f ''String'' (typeName (nth_arg args 0)))"
  by (simp add: checkArgs_def checkArgs_s del: checkArgs_from.simps(2))

lemma checkArgs_src_local:
  "\<not> optional_string (nth_arg args 0) \<Longrightarrow>
   checkArgs ''SFFF'' f args = Some (wrong_type ''src'' f ''String'' (typeName (nth_arg args 0)))"
  by (simp add: checkArgs_def checkArgs_S del: checkArgs_from.simps(2))

lemma register_simps:
  "mediaObjects (register uuid args w) = (mediaObjects w)(uuid \<mapsto> nextRef w)"
  "heap (register uuid args w) = (heap w)(nextRef w := new_media uuid args)"
  "nextRef (register uuid args w) = Suc (nextRef w)"
  "trace (register uuid args w) = trace w"
  "console (register uuid args w) = console w"
  "outbox (register uuid args w) = outbox w"
  by (simp_all add: register_def)

lemma new_media_simps:
  "media_id (new_media uuid args) = uuid"
  "src (new_media uuid args) = nth_arg args 0"
  "successCallback (new_media uuid args) = nth_arg args 1"
  "errorCallback (new_media uuid args) = nth_arg args 2"
  "statusCallback (new_media uuid args) = nth_arg args 3"
  "duration (new_media uuid args) = JNum (Fin (- 1))"
  "position (new_media uuid args) = JNum (Fin (- 1))"
  "node (new_media uuid args) = None"
  by (simp_all add: new_media_def)

lemma bridge_new_ok:
  "bridge_signature args \<Longrightarrow>
   bridge_NocSonicMedia uuid args w =
     (Inr (nextRef w),
      (register uuid args w)\<lparr>outbox := outbox w @
         [Exec NoCallback (nth_arg args 2) ''NocSonicMedia'' ''create''
            [JStr uuid, nth_arg args 0]]\<rparr>)"
  using checkArgs_bridge [of "''NocSonicMedia''" args]
  by (simp add: bridge_NocSonicMedia_def Let_def andThen_def exec_def modify_def ret_def
      register_simps new_media_simps)

lemma bridge_new_fail:
  "\<not> bridge_signature args \<Longrightarrow>
   \<exists>msg. bridge_NocSonicMedia uuid args w = (Inl (TypeError msg), w)"
  using checkArgs_bridge [of "''NocSonicMedia''" args]
        checkArgs_TypeError [of "''sFFF''" "''NocSonicMedia''" args]
  by (auto simp add: bridge_NocSonicMedia_def throw_def split: option.splits)

lemma local_onStatus_state_registered:
  "mediaObjects w i = Some m \<Longrightarrow> optional_function (statusCallback (heap w m)) \<Longrightarrow>
   optional_function (successCallback (heap w m)) \<Longrightarrow>
   local_onStatus h i (JNum MEDIA_STATE) (JNum n) w =
     (Inr (), w\<lparr>trace := trace w @ invocation (statusCallback (heap w m)) [JNum n]
        @ (if n = MEDIA_STOPPED then invocation (successCallback (heap w m)) [] else [])\<rparr>)"
  by (simp add: local_onStatus_def lookup_registered strict_eq_num_def andThen_def
      guarded_call_optional ret_def MEDIA_STATE_def MEDIA_STOPPED_def)

lemma local_onStatus_error_registered:
  "mediaObjects w i = Some m \<Longrightarrow> optional_function (errorCallback (heap w m)) \<Longrightarrow>
   local_onStatus h i (JNum MEDIA_ERROR) v w =
     (Inr (), w\<lparr>trace := trace w @ invocation (errorCallback (heap w m)) [v]\<rparr>)"
  by (simp add: local_onStatus_def lookup_registered strict_eq_num_def guarded_call_optional
      MEDIA_STATE_def MEDIA_DURATION_def MEDIA_ERROR_def)

lemma local_new_ok:
  assumes "local_signature args"
  shows "\<exists>w'. local_NocSonicMedia h uuid args w = (Inr (nextRef w), w')
           \<and> mediaObjects w' = (mediaObjects w)(uuid \<mapsto> nextRef w)"
proof -
  have chk: "checkArgs ''SFFF'' ''NocSonicMedia'' args = None"
    using assms by (simp add: checkArgs_local)
  have cbs: "optional_function (nth_arg args 1)" "optional_function (nth_arg args 2)"
    "optional_function (nth_arg args 3)"
    using assms by (simp_all add: local_signature_def)
  show ?thesis
    using chk cbs
    by (simp add: local_NocSonicMedia_def Let_def andThen_def register_simps new_media_simps
        local_onStatus_state_registered tryCatch_def assign_node_def createNode_def throw_def
        ret_def modify_def report_aborted_def update_media_def local_onStatus_error_registered
        MEDIA_STARTING_def MEDIA_STOPPED_def split: option.splits)
qed

lemma local_new_fail:
  "\<not> local_signature args \<Longrightarrow>
   \<exists>msg. local_NocSonicMedia h uuid args w = (Inl (TypeError msg), w)"
  using checkArgs_local [of "''NocSonicMedia''" args]
        checkArgs_TypeError [of "''SFFF''" "''NocSonicMedia''" args]
  by (auto simp add: local_NocSonicMedia_def throw_def split: option.splits)

text \<open>
  C8, as the code has it. The constructor of the bridge module checks its arguments
  against \<open>'sFFF'\<close>: the source must be a string. The constructor of the local module
  checks them against \<open>'SFFF'\<close>: the source must be a string when it is given, and
  \<open>null\<close>, \<open>undefined\<close> or no argument pass. In both, each of the three callbacks is a
  function or absent. When the arguments fit the signature the constructor returns the
  new handle, registered under its id; when they do not, it throws a TypeError and leaves
  the state as it was, so no handle is registered. For a source of the wrong type the
  message names the parameter \<open>src\<close>, the expected type \<open>String\<close> and the type found.
\<close>

theorem constructor_checks_arguments:
  "(if bridge_signature args
    then \<exists>w'. bridge_NocSonicMedia uuid args w = (Inr (nextRef w), w')
            \<and> mediaObjects w' = (mediaObjects w)(uuid \<mapsto> nextRef w)
    else \<exists>msg. bridge_NocSonicMedia uuid args w = (Inl (TypeError msg), w))
   \<and> (if local_signature args
    then \<exists>w'. local_NocSonicMedia h uuid args w = (Inr (nextRef w), w')
            \<and> mediaObjects w' = (mediaObjects w)(uuid \<mapsto> nextRef w)
    else \<exists>msg. local_NocSonicMedia h uuid args w = (Inl (TypeError msg), w))
   \<and> (\<not> is_string (nth_arg args 0) \<longrightarrow>
        bridge_NocSonicMedia uuid args w =
          (Inl (wrong_type ''src'' ''NocSonicMedia'' ''String'' (typeName (nth_arg args 0))), w))
   \<and> (\<not> optional_string (nth_arg args 0) \<longrightarrow>
        local_NocSonicMedia h uuid args w =
          (Inl (wrong_type ''src'' ''NocSonicMedia'' ''String'' (typeName (nth_arg args 0))), w))"
proof -
  have "bridge_signature args \<Longrightarrow> \<exists>w'. bridge_NocSonicMedia uuid args w = (Inr (nextRef w), w')
            \<and> mediaObjects w' = (mediaObjects w)(uuid \<mapsto> nextRef w)"
    by (simp add: bridge_new_ok register_simps)
  moreover have "\<not> is_string (nth_arg args 0) \<Longrightarrow>
        bridge_NocSonicMedia uuid args w =
          (Inl (wrong_type ''src'' ''NocSonicMedia'' ''String'' (typeName (nth_arg args 0))), w)"
    by (simp add: bridge_NocSonicMedia_def checkArgs_src_bridge throw_def)
  moreover have "\<not> optional_string (nth_arg args 0) \<Longrightarrow>
        local_NocSonicMedia h uuid args w =
          (Inl (wrong_type ''src'' ''NocSonicMedia'' ''String'' (typeName (nth_arg args 0))), w)"
    by (simp add: local_NocSonicMedia_def checkArgs_src_local throw_def)
  ultimately show ?thesis
    using bridge_new_fail [of args uuid w] local_new_ok [of args h uuid w]
      local_new_fail [of args h uuid w]
    by simp
qed

theorem constructor_checks_arguments_witness:
  "\<not> is_string (nth_arg [JNum (Fin 5)] 0) \<and> \<not> optional_string (nth_arg [JNum (Fin 5)] 0)
   \<and> bridge_NocSonicMedia ''id-1'' [JNum (Fin 5)] initial_world =
       (Inl (TypeError (''Wrong type for parameter '' @ [CHR 0x22] @ ''src'' @ [CHR 0x22]
          @ '' of NocSonicMedia: Expected String, but got Number.'')), initial_world)
   \<and> local_NocSonicMedia example_host ''id-1'' [JNum (Fin 5)] initial_world =
       (Inl (TypeError (''Wrong type for parameter '' @ [CHR 0x22] @ ''src'' @ [CHR 0x22]
          @ '' of NocSonicMedia: Expected String, but got Number.'')), initial_world)
   \<and> (\<exists>msg. bridge_NocSonicMedia ''id-1'' [] initial_world = (Inl (TypeError msg), initial_world))
   \<and> (\<exists>w'. bridge_NocSonicMedia ''id-1'' [JStr ''track.mp3'', JFun 1] initial_world = (Inr 0, w')
          \<and> mediaObjects w' ''id-1'' = Some 0)"
proof -
  have wrong: "\<not> is_string (nth_arg [JNum (Fin 5)] 0)"
    "\<not> optional_string (nth_arg [JNum (Fin 5)] 0)"
    "typeName (nth_arg [JNum (Fin 5)] 0) = ''Number''"
    by (simp_all add: nth_arg_def is_string_def optional_string_def)
  have none: "\<not> bridge_signature []"
    by (simp add: bridge_signature_def nth_arg_def is_string_def)
  have good: "bridge_signature [JStr ''track.mp3'', JFun 1]"
    by (simp add: bridge_signature_def nth_arg_def is_string_def optional_function_def)
  have start: "nextRef initial_world = 0"
    by (simp add: initial_world_def)
  show ?thesis
    using constructor_checks_arguments [of "[JNum (Fin 5)]" "''id-1''" initial_world example_host]
      constructor_checks_arguments [of "[]" "''id-1''" initial_world example_host]
      constructor_checks_arguments [of "[JStr ''track.mp3'', JFun 1]" "''id-1''" initial_world
        example_host]
    apply (simp only: wrong none good start if_True if_False simp_thms)
    apply (elim conjE exE)
    apply (intro conjI)
    apply (simp_all add: wrong_type_def)
    done
qed

text \<open>
  The claim as stated fails on the local module: called with no source (no argument at
  all, or \<open>null\<close>), its constructor throws nothing, returns a handle and registers it.
\<close>

theorem local_constructor_accepts_absent_source:
  "nth_arg [] 0 = JUndefined
   \<and> fst (local_NocSonicMedia example_host ''id-1'' [] initial_world) = Inr 0
   \<and> mediaObjects (snd (local_NocSonicMedia example_host ''id-1'' [] initial_world)) ''id-1'' = Some 0
   \<and> fst (local_NocSonicMedia example_host ''id-2'' [JNull, JFun 1] initial_world) = Inr 0"
  using local_new_ok [of "[]" example_host "''id-1''" initial_world]
    local_new_ok [of "[JNull, JFun 1]" example_host "''id-2''" initial_world]
  by (auto simp add: nth_arg_def local_signature_def optional_string_def optional_function_def
      initial_world_def)

section \<open>Properties of the local module on a handle without element\<close>

lemma element_do_absent:
  "node (heap w this) = None \<Longrightarrow> element_do h this opn f w = (Inl undefined_node, w)"
  by (simp add: element_do_def with_node_def throw_def undefined_node_def)

lemma report_error_registered:
  "mediaObjects w (media_id (heap w this)) = Some this \<Longrightarrow>
   optional_function (errorCallback (heap w this)) \<Longrightarrow>
   report_error h this err w =
     (Inr (), w\<lparr>trace := trace w @ invocation (errorCallback (heap w this)) [err]\<rparr>)"
  by (simp add: report_error_def local_onStatus_error_registered)

lemma report_aborted_registered:
  "mediaObjects w (media_id (heap w this)) = Some this \<Longrightarrow>
   optional_function (errorCallback (heap w this)) \<Longrightarrow>
   report_aborted h this w =
     (Inr (), w\<lparr>trace := trace w @ invocation (errorCallback (heap w this))
        [JObj [(''code'', JNum (MEDIA_ERR_ABORTED h))]]\<rparr>)"
  by (simp add: report_aborted_def local_onStatus_error_registered)

text \<open>
  C4, where the code departs from it. On a handle of the local module that has no
  element (after \<open>release()\<close>), when \<open>new Audio()\<close> throws, \<open>play()\<close> does report the
  Error notification \<open>{code: MEDIA_ERR_ABORTED}\<close> to the handle's error callback, and
  then throws to its caller all the same: after the \<open>catch\<close> block \<open>this.node\<close> is still
  \<open>undefined\<close>, and \<open>this.node.play()\<close> stands outside the \<open>try\<close>.
\<close>

theorem play_raises_when_rebuild_fails:
  assumes "node (heap w this) = None"
    and "Audio_throws h = Some e"
    and "mediaObjects w (media_id (heap w this)) = Some this"
    and "optional_function (errorCallback (heap w this))"
  shows "local_play h this w =
           (Inl undefined_node,
            w\<lparr>trace := trace w @ invocation (errorCallback (heap w this))
               [JObj [(''code'', JNum (MEDIA_ERR_ABORTED h))]]\<rparr>)"
  using assms
  by (simp add: local_play_def andThen_def tryCatch_def assign_node_def createNode_def throw_def
      report_aborted_registered element_do_absent)

theorem play_raises_when_rebuild_fails_witness:
  "node (heap (released_world host_without_Audio) 0) = None
   \<and> Audio_throws host_without_Audio = Some (JErr ''ReferenceError'' ''Audio is not defined'')
   \<and> mediaObjects (released_world host_without_Audio)
        (media_id (heap (released_world host_without_Audio) 0)) = Some 0
   \<and> optional_function (errorCallback (heap (released_world host_without_Audio) 0))
   \<and> fst (local_play host_without_Audio 0 (released_world host_without_Audio)) =
        Inl (TypeError ''Cannot read properties of undefined'')
   \<and> trace (snd (local_play host_without_Audio 0 (released_world host_without_Audio))) =
        trace (released_world host_without_Audio) @ [Invoke 2 [JObj [(''code'', JNum (Fin 1))]]]"
  using play_raises_when_rebuild_fails [of "released_world host_without_Audio" 0 host_without_Audio
     "JErr ''ReferenceError'' ''Audio is not defined''"]
  by (simp add: released_world_def host_without_Audio_def example_simps js_defs local_defs Let_def undefined_node_def TypeError_def)

text \<open>When the element can be built, \<open>play()\<close> on such a handle builds it and starts it.\<close>

lemma play_rebuilds_element:
  assumes "node (heap w this) = None"
    and "Audio_throws h = None"
    and "element_throws h ElPlay
           \<lparr>a_src = (if ToBoolean (src (heap w this)) then Some (src (heap w this)) else None),
            currentTime = Fin 0, volume = JNum (Fin 1), paused = True\<rparr> = None"
  shows "local_play h this w =
           (Inr (), update_media this (\<lambda>x. x\<lparr>node := Some
              \<lparr>a_src = (if ToBoolean (src (heap w this)) then Some (src (heap w this)) else None),
               currentTime = Fin 0, volume = JNum (Fin 1), paused = False\<rparr>\<rparr>) w)"
  using assms
  by (simp add: local_play_def andThen_def tryCatch_def assign_node_def createNode_def ret_def
      modify_def update_media_def element_do_def with_node_def)

lemma local_pause_absent:
  assumes "node (heap w this) = None"
    and "mediaObjects w (media_id (heap w this)) = Some this"
    and "optional_function (errorCallback (heap w this))"
  shows "local_pause h this w =
     (Inr (), w\<lparr>trace := trace w @ invocation (errorCallback (heap w this)) [undefined_node]\<rparr>)"
  using assms
  by (simp add: local_pause_def tryCatch_def andThen_def element_do_absent report_error_registered)

lemma local_seekTo_absent:
  assumes "node (heap w this) = None"
    and "mediaObjects w (media_id (heap w this)) = Some this"
    and "optional_function (errorCallback (heap w this))"
  shows "local_seekTo h this ms w =
     (Inr (), w\<lparr>trace := trace w @ invocation (errorCallback (heap w this)) [undefined_node]\<rparr>)"
  using assms
  by (simp add: local_seekTo_def tryCatch_def element_do_absent report_error_registered)

lemma update_node_absent:
  assumes "node (heap w this) = None"
  shows "update_media this (\<lambda>x. x\<lparr>node := None\<rparr>) w = w"
proof -
  have "(heap w this)\<lparr>node := None\<rparr> = heap w this"
    using assms by (cases "heap w this") simp
  then show ?thesis
    by (simp add: update_media_def)
qed

lemma local_release_absent:
  "node (heap w this) = None \<Longrightarrow> local_release h this w = (Inr (), w)"
  by (simp add: local_release_def tryCatch_def modify_def update_node_absent)

lemma local_stop_absent:
  assumes "node (heap w this) = None"
    and "mediaObjects w (media_id (heap w this)) = Some this"
    and "optional_function (errorCallback (heap w this))"
    and "optional_function (statusCallback (heap w this))"
    and "optional_function (successCallback (heap w this))"
  shows "local_stop h this w =
     (Inr (), w\<lparr>trace := trace w
        @ invocation (errorCallback (heap w this)) [undefined_node]
        @ invocation (errorCallback (heap w this)) [undefined_node]
        @ invocation (statusCallback (heap w this)) [JNum MEDIA_STOPPED]
        @ invocation (successCallback (heap w this)) []\<rparr>)"
  using assms
  by (simp add: local_stop_def tryCatch_def andThen_def local_pause_absent local_seekTo_absent
      local_onStatus_state_registered)

lemma local_getCurrentPosition_absent:
  assumes "node (heap w this) = None"
  shows "local_getCurrentPosition h this success (JFun kf) w =
     (Inr (), w\<lparr>trace := trace w @ [Invoke kf [undefined_node]]\<rparr>)"
  using assms
  by (simp add: local_getCurrentPosition_def tryCatch_def andThen_def with_node_def throw_def
      call_def undefined_node_def)

text \<open>
  C10, as the code has it. On a handle of the local module that has no element,
  registered under its id and with callbacks that are functions or absent:
  \<open>setVolume(volume)\<close> throws the TypeError of \<open>this.node.volume\<close> to its caller and
  changes nothing (no Error notification); \<open>pause()\<close> and \<open>seekTo(ms)\<close> return normally
  after reporting that TypeError as an Error notification; \<open>stop()\<close> returns normally
  after the two Error notifications of its \<open>pause()\<close> and \<open>seekTo(0)\<close> and the Stopped
  notification; \<open>release()\<close> returns normally and changes nothing;
  \<open>getCurrentPosition(success, fail)\<close> returns normally after passing the TypeError to
  \<open>fail\<close>.
\<close>

theorem released_handle_operations:
  assumes "node (heap w this) = None"
    and "mediaObjects w (media_id (heap w this)) = Some this"
    and "optional_function (errorCallback (heap w this))"
    and "optional_function (statusCallback (heap w this))"
    and "optional_function (successCallback (heap w this))"
  shows "local_setVolume h this vol w = (Inl undefined_node, w)
     \<and> local_pause h this w =
         (Inr (), w\<lparr>trace := trace w
            @ invocation (errorCallback (heap w this)) [undefined_node]\<rparr>)
     \<and> local_seekTo h this ms w =
         (Inr (), w\<lparr>trace := trace w
            @ invocation (errorCallback (heap w this)) [undefined_node]\<rparr>)
     \<and> local_stop h this w =
         (Inr (), w\<lparr>trace := trace w
            @ invocation (errorCallback (heap w this)) [undefined_node]
            @ invocation (errorCallback (heap w this)) [undefined_node]
            @ invocation (statusCallback (heap w this)) [JNum MEDIA_STOPPED]
            @ invocation (successCallback (heap w this)) []\<rparr>)
     \<and> local_release h this w = (Inr (), w)
     \<and> local_getCurrentPosition h this success (JFun kf) w =
         (Inr (), w\<lparr>trace := trace w @ [Invoke kf [undefined_node]]\<rparr>)"
  using assms
  by (simp add: local_setVolume_def element_do_absent local_pause_absent local_seekTo_absent
      local_stop_absent local_release_absent local_getCurrentPosition_absent)

theorem released_handle_operations_witness:
  "node (heap (released_world example_host) 0) = None
   \<and> mediaObjects (released_world example_host)
        (media_id (heap (released_world example_host) 0)) = Some 0
   \<and> optional_function (errorCallback (heap (released_world example_host) 0))
   \<and> optional_function (statusCallback (heap (released_world example_host) 0))
   \<and> optional_function (successCallback (heap (released_world example_host) 0))
   \<and> local_setVolume example_host 0 (JNum (Fin 1)) (released_world example_host) =
        (Inl (TypeError ''Cannot read properties of undefined''), released_world example_host)
   \<and> fst (local_stop example_host 0 (released_world example_host)) = Inr ()
   \<and> trace (snd (local_stop example_host 0 (released_world example_host))) =
        trace (released_world example_host)
          @ [Invoke 2 [TypeError ''Cannot read properties of undefined''],
             Invoke 2 [TypeError ''Cannot read properties of undefined''],
             Invoke 3 [JNum (Fin 4)], Invoke 1 []]"
  using released_handle_operations [of "released_world example_host" 0 example_host "JNum (Fin 1)"]
  by (simp add: released_world_def example_simps js_defs local_defs Let_def undefined_node_def)

text \<open>
  The claim as stated fails on "only": \<open>play()\<close> calls \<open>this.node.play()\<close> outside any
  \<open>try\<close>. On a handle without element it throws to its caller when the element cannot
  be built, and when the element it has built throws from \<open>play()\<close>; in the second case
  no Error notification is sent either.
\<close>

theorem play_is_unguarded_too:
  "node (heap (released_world host_without_Audio) 0) = None
   \<and> fst (local_play host_without_Audio 0 (released_world host_without_Audio)) =
        Inl (TypeError ''Cannot read properties of undefined'')
   \<and> node (heap (released_world host_play_throws) 0) = None
   \<and> fst (local_play host_play_throws 0 (released_world host_play_throws)) =
        Inl (JErr ''NotSupportedError'' [])
   \<and> trace (snd (local_play host_play_throws 0 (released_world host_play_throws))) =
        trace (released_world host_play_throws)"
  by (simp add: released_world_def host_without_Audio_def host_play_throws_def example_simps
      js_defs local_defs Let_def)

section \<open>What the steps of a run preserve\<close>

text \<open>
  Every function of the two modules but the constructors leaves the registry, the
  allocation and the ids alone, and every one but a Duration delivery leaves the cached
  durations alone.
\<close>

lemma stable_registry:
  "stable_view w' = stable_view w \<Longrightarrow> registry_view w' = registry_view w"
  by (auto simp: stable_view_def registry_view_def fun_eq_iff)

lemma stable_duration:
  "stable_view w' = stable_view w \<Longrightarrow> duration (heap w' r) = duration (heap w r)"
  by (auto simp: stable_view_def fun_eq_iff)

lemma stable_ret [stable]: "stable_view (snd (ret x w)) = stable_view w"
  by (simp add: ret_def)

lemma stable_throw [stable]: "stable_view (snd (throw e w)) = stable_view w"
  by (simp add: throw_def)

lemma stable_andThen [stable]:
  assumes "\<And>w. stable_view (snd (f w)) = stable_view w"
    and "\<And>x w. stable_view (snd (g x w)) = stable_view w"
  shows "stable_view (snd (andThen f g w)) = stable_view w"
proof (cases "f w")
  case (Pair r w')
  then have "stable_view w' = stable_view w"
    using assms(1) [of w] by simp
  then show ?thesis
    using Pair assms(2) by (cases r) (simp_all add: andThen_def)
qed

lemma stable_tryCatch [stable]:
  assumes "\<And>w. stable_view (snd (f w)) = stable_view w"
    and "\<And>e w. stable_view (snd (g e w)) = stable_view w"
  shows "stable_view (snd (tryCatch f g w)) = stable_view w"
proof (cases "f w")
  case (Pair r w')
  then have "stable_view w' = stable_view w"
    using assms(1) [of w] by simp
  then show ?thesis
    using Pair assms(2) by (cases r) (simp_all add: tryCatch_def)
qed

lemma stable_call [stable]: "stable_view (snd (call f args w)) = stable_view w"
  by (simp add: call_def stable_view_def split: jsval.splits)

lemma stable_guarded_call [stable]: "stable_view (snd (guarded_call f args w)) = stable_view w"
  by (simp add: guarded_call_def stable)

lemma stable_console_error [stable]: "stable_view (snd (console_error l w)) = stable_view w"
  by (simp add: console_error_def modify_def stable_view_def)

lemma stable_exec [stable]: "stable_view (snd (exec s f a b c w)) = stable_view w"
  by (simp add: exec_def modify_def stable_view_def)

lemma stable_update_media:
  "(\<And>x. media_id (f x) = media_id x \<and> duration (f x) = duration x) \<Longrightarrow>
   stable_view (snd (modify (update_media r f) w)) = stable_view w"
  by (simp add: modify_def update_media_def stable_view_def fun_eq_iff)

lemma stable_position [stable]:
  "stable_view (snd (modify (update_media r (\<lambda>x. x\<lparr>position := p\<rparr>)) w)) = stable_view w"
  by (simp add: stable_update_media)

lemma stable_node [stable]:
  "stable_view (snd (modify (update_media r (\<lambda>x. x\<lparr>node := n\<rparr>)) w)) = stable_view w"
  by (simp add: stable_update_media)

lemma stable_assign_position [stable]:
  "stable_view (snd (modify (assign_position media p) w)) = stable_view w"
  by (cases "(media, p, w)" rule: assign_position.cases)
    (simp_all add: modify_def stable_view_def update_media_def put_on_prototype_def fun_eq_iff)

lemma registry_assign_duration:
  "registry_view (assign_duration media v w) = registry_view w"
  by (cases "(media, v, w)" rule: assign_duration.cases)
    (simp_all add: registry_view_def update_media_def put_on_prototype_def fun_eq_iff)

lemma heap_assign_duration:
  "duration (heap (assign_duration media v w) r) =
     (if media = Handle r then v else duration (heap w r))"
  by (cases "(media, v, w)" rule: assign_duration.cases)
    (simp_all add: update_media_def put_on_prototype_def)

lemma onStatus_stable:
  assumes "\<not> strict_eq_num msgType MEDIA_DURATION"
  shows "stable_view (snd (bridge_onStatus h i msgType v w)) = stable_view w"
    and "stable_view (snd (local_onStatus h i msgType v w)) = stable_view w"
  using assms
  by (simp_all add: bridge_onStatus_def local_onStatus_def stable)

lemma onStatus_duration:
  assumes "strict_eq_num msgType MEDIA_DURATION"
  shows "snd (bridge_onStatus h i msgType v w) =
           (if truthy (lookup w i) then assign_duration (lookup w i) v w
            else w\<lparr>console := console w @ [UnknownMedia i]\<rparr>)"
    and "snd (local_onStatus h i msgType v w) =
           (if truthy (lookup w i) then assign_duration (lookup w i) v w
            else w\<lparr>console := console w @ [UnknownMedia i]\<rparr>)"
  using assms
  by (auto simp add: bridge_onStatus_def local_onStatus_def strict_eq_num_def modify_def
      console_error_def MEDIA_STATE_def MEDIA_DURATION_def)

lemma onStatus_registry:
  "registry_view (snd (bridge_onStatus h i msgType v w)) = registry_view w"
  "registry_view (snd (local_onStatus h i msgType v w)) = registry_view w"
proof -
  have dur: "registry_view (if truthy (lookup w i) then assign_duration (lookup w i) v w
            else w\<lparr>console := console w @ [UnknownMedia i]\<rparr>) = registry_view w"
    by (simp add: registry_assign_duration) (simp add: registry_view_def)
  show "registry_view (snd (bridge_onStatus h i msgType v w)) = registry_view w"
    using dur onStatus_duration(1) [of msgType h i v w]
      stable_registry [OF onStatus_stable(1) [of msgType h i v w]]
    by (cases "strict_eq_num msgType MEDIA_DURATION") simp_all
  show "registry_view (snd (local_onStatus h i msgType v w)) = registry_view w"
    using dur onStatus_duration(2) [of msgType h i v w]
      stable_registry [OF onStatus_stable(2) [of msgType h i v w]]
    by (cases "strict_eq_num msgType MEDIA_DURATION") simp_all
qed

lemma not_duration [simp]:
  "\<not> strict_eq_num (JNum MEDIA_STATE) MEDIA_DURATION"
  "\<not> strict_eq_num (JNum MEDIA_ERROR) MEDIA_DURATION"
  "\<not> strict_eq_num (JNum MEDIA_POSITION) MEDIA_DURATION"
  "strict_eq_num (JNum MEDIA_DURATION) MEDIA_DURATION"
  by (simp_all add: strict_eq_num_def MEDIA_STATE_def MEDIA_ERROR_def MEDIA_POSITION_def
      MEDIA_DURATION_def)

lemma bridge_methods_stable [stable]:
  "stable_view (snd (bridge_play this options w)) = stable_view w"
  "stable_view (snd (bridge_stop this w)) = stable_view w"
  "stable_view (snd (bridge_seekTo this ms w)) = stable_view w"
  "stable_view (snd (bridge_pause this w)) = stable_view w"
  "stable_view (snd (bridge_getDuration this w)) = stable_view w"
  "stable_view (snd (bridge_getCurrentPosition this s f w)) = stable_view w"
  "stable_view (snd (bridge_startRecord this w)) = stable_view w"
  "stable_view (snd (bridge_stopRecord this w)) = stable_view w"
  "stable_view (snd (bridge_release this w)) = stable_view w"
  "stable_view (snd (bridge_setVolume this vol w)) = stable_view w"
  "stable_view (snd (exec_success c p w)) = stable_view w"
  "stable_view (snd (exec_fail f p w)) = stable_view w"
  by (simp_all add: bridge_play_def bridge_stop_def bridge_seekTo_def bridge_pause_def
      bridge_getDuration_def bridge_getCurrentPosition_def bridge_startRecord_def
      bridge_stopRecord_def bridge_release_def bridge_setVolume_def exec_success_def
      exec_fail_def stable split: cont.splits)

lemma local_helpers_stable [stable]:
  "stable_view (snd (createNode h this w)) = stable_view w"
  "stable_view (snd (assign_node h this w)) = stable_view w"
  "stable_view (snd (report_aborted h this w)) = stable_view w"
  "stable_view (snd (report_error h this err w)) = stable_view w"
  "stable_view (snd (element_do h this opn f w)) = stable_view w"
  by (simp_all add: createNode_def assign_node_def report_aborted_def report_error_def
      element_do_def with_node_def onStatus_stable stable split: option.splits)

lemma local_methods_stable [stable]:
  "stable_view (snd (local_play h this w)) = stable_view w"
  "stable_view (snd (local_seekTo h this ms w)) = stable_view w"
  "stable_view (snd (local_pause h this w)) = stable_view w"
  "stable_view (snd (local_getDuration this w)) = stable_view w"
  "stable_view (snd (local_getCurrentPosition h this s f w)) = stable_view w"
  "stable_view (snd (local_startRecord h this w)) = stable_view w"
  "stable_view (snd (local_stopRecord h this w)) = stable_view w"
  "stable_view (snd (local_release h this w)) = stable_view w"
  "stable_view (snd (local_setVolume h this vol w)) = stable_view w"
  "stable_view (snd (node_onloadstart h this w)) = stable_view w"
  "stable_view (snd (node_onplaying h this w)) = stable_view w"
  "stable_view (snd (node_onended h this w)) = stable_view w"
  by (simp_all add: local_play_def local_seekTo_def local_pause_def local_getDuration_def
      local_getCurrentPosition_def local_startRecord_def local_stopRecord_def local_release_def
      local_setVolume_def node_onloadstart_def node_onplaying_def node_onended_def
      with_node_def onStatus_stable stable split: option.splits)

lemma local_stop_stable [stable]:
  "stable_view (snd (local_stop h this w)) = stable_view w"
  by (simp add: local_stop_def onStatus_stable stable)

lemma get_code_stable [stable]: "stable_view (snd (get_code e w)) = stable_view w"
  by (cases e) (simp_all add: stable)

lemma node_onerror_stable [stable]:
  "stable_view (snd (node_onerror h this e w)) = stable_view w"
  by (simp add: node_onerror_def onStatus_stable stable)

lemma well_formed_view:
  "registry_view w' = registry_view w \<Longrightarrow> well_formed w' = well_formed w"
  by (auto simp: well_formed_def registry_view_def fun_eq_iff)

lemma well_formed_initial: "well_formed initial_world"
  by (simp add: well_formed_def initial_world_def)

lemma well_formed_register: "well_formed w \<Longrightarrow> well_formed (register uuid args w)"
  by (auto simp: well_formed_def register_def new_media_def less_Suc_eq)

lemma registry_view_register:
  "registry_view w' = registry_view (register uuid args w) \<Longrightarrow>
   mediaObjects w' = (mediaObjects w)(uuid \<mapsto> nextRef w) \<and> nextRef w' = Suc (nextRef w)
   \<and> media_id (heap w' (nextRef w)) = uuid
   \<and> (\<forall>r. r \<noteq> nextRef w \<longrightarrow> media_id (heap w' r) = media_id (heap w r))"
  by (auto simp: registry_view_def register_def new_media_def fun_eq_iff)

lemma bridge_new_stable:
  "stable_view (snd (bridge_NocSonicMedia uuid args w)) =
     (if bridge_signature args then stable_view (register uuid args w) else stable_view w)"
  using checkArgs_bridge [of "''NocSonicMedia''" args]
  by (auto simp add: bridge_NocSonicMedia_def Let_def stable split: option.splits)

lemma local_new_stable:
  "stable_view (snd (local_NocSonicMedia h uuid args w)) =
     (if local_signature args then stable_view (register uuid args w) else stable_view w)"
  using checkArgs_local [of "''NocSonicMedia''" args]
  by (auto simp add: local_NocSonicMedia_def Let_def onStatus_stable stable split: option.splits)

lemma node_ondurationchange_registry:
  "registry_view (snd (node_ondurationchange h m d w)) = registry_view w"
  by (simp add: node_ondurationchange_def onStatus_registry)

lemma bridge_new_registry:
  "registry_view (snd (bridge_NocSonicMedia uuid args w)) =
     (if bridge_signature args then registry_view (register uuid args w) else registry_view w)"
  using bridge_new_stable [of uuid args w]
  by (auto dest: stable_registry)

lemma local_new_registry:
  "registry_view (snd (local_NocSonicMedia h uuid args w)) =
     (if local_signature args then registry_view (register uuid args w) else registry_view w)"
  using local_new_stable [of h uuid args w]
  by (auto dest: stable_registry)

text \<open>Steps other than a constructor call leave the registry, the references and the ids alone.\<close>

lemma bridge_step_registry:
  "registry_view (bridge_step h a w) =
     (case a of
        B_new uuid args \<Rightarrow>
          if bridge_signature args then registry_view (register uuid args w) else registry_view w
      | _ \<Rightarrow> registry_view w)"
  by (cases a)
    (simp_all add: onStatus_registry bridge_new_registry
      bridge_methods_stable [THEN stable_registry])

lemma local_step_registry:
  "registry_view (local_step h a w) =
     (case a of
        L_new uuid args \<Rightarrow>
          if local_signature args then registry_view (register uuid args w) else registry_view w
      | _ \<Rightarrow> registry_view w)"
  by (cases a)
    (simp_all add: onStatus_registry node_ondurationchange_registry local_new_registry
      local_methods_stable [THEN stable_registry] local_stop_stable [THEN stable_registry]
      node_onerror_stable [THEN stable_registry])

lemma registry_view_simps:
  "registry_view w' = registry_view w \<Longrightarrow> mediaObjects w' = mediaObjects w"
  "registry_view w' = registry_view w \<Longrightarrow> nextRef w' = nextRef w"
  "registry_view w' = registry_view w \<Longrightarrow> media_id (heap w' r) = media_id (heap w r)"
  by (auto simp: registry_view_def fun_eq_iff)

lemma bridge_step_well_formed: "well_formed w \<Longrightarrow> well_formed (bridge_step h a w)"
  using bridge_step_registry [of h a w]
  by (auto split: bridge_op.splits if_splits dest: well_formed_view intro: well_formed_register)

lemma local_step_well_formed: "well_formed w \<Longrightarrow> well_formed (local_step h a w)"
  using local_step_registry [of h a w]
  by (auto split: local_op.splits if_splits dest: well_formed_view intro: well_formed_register)

lemma bridge_run_well_formed: "well_formed w \<Longrightarrow> well_formed (bridge_run h as w)"
  by (induction as arbitrary: w) (simp_all add: bridge_step_well_formed)

lemma local_run_well_formed: "well_formed w \<Longrightarrow> well_formed (local_run h as w)"
  by (induction as arbitrary: w) (simp_all add: local_step_well_formed)

text \<open>No step removes an entry.\<close>

lemma bridge_step_keeps_entries:
  "mediaObjects w i \<noteq> None \<Longrightarrow> mediaObjects (bridge_step h a w) i \<noteq> None"
  using bridge_step_registry [of h a w]
  by (auto split: bridge_op.splits if_splits dest!: registry_view_simps(1) registry_view_register)

lemma local_step_keeps_entries:
  "mediaObjects w i \<noteq> None \<Longrightarrow> mediaObjects (local_step h a w) i \<noteq> None"
  using local_step_registry [of h a w]
  by (auto split: local_op.splits if_splits dest!: registry_view_simps(1) registry_view_register)

lemma bridge_run_keeps_entries:
  "mediaObjects w i \<noteq> None \<Longrightarrow> mediaObjects (bridge_run h as w) i \<noteq> None"
proof (induction as arbitrary: w)
  case Nil
  then show ?case by simp
next
  case (Cons a as)
  from Cons.prems have "mediaObjects (bridge_step h a w) i \<noteq> None"
    by (rule bridge_step_keeps_entries)
  then show ?case
    using Cons.IH by simp
qed

lemma local_run_keeps_entries:
  "mediaObjects w i \<noteq> None \<Longrightarrow> mediaObjects (local_run h as w) i \<noteq> None"
proof (induction as arbitrary: w)
  case Nil
  then show ?case by simp
next
  case (Cons a as)
  from Cons.prems have "mediaObjects (local_step h a w) i \<noteq> None"
    by (rule local_step_keeps_entries)
  then show ?case
    using Cons.IH by simp
qed


text \<open>A registered handle stays registered under its id when later ids are fresh.\<close>

lemma bridge_step_keeps_handle:
  assumes "mediaObjects w i = Some m"
    and "case a of B_new uuid args \<Rightarrow> mediaObjects w uuid = None | _ \<Rightarrow> True"
  shows "mediaObjects (bridge_step h a w) i = Some m"
  using assms bridge_step_registry [of h a w]
  by (auto split: bridge_op.splits if_splits dest!: registry_view_simps(1) registry_view_register)

lemma local_step_keeps_handle:
  assumes "mediaObjects w i = Some m"
    and "case a of L_new uuid args \<Rightarrow> mediaObjects w uuid = None | _ \<Rightarrow> True"
  shows "mediaObjects (local_step h a w) i = Some m"
  using assms local_step_registry [of h a w]
  by (auto split: local_op.splits if_splits dest!: registry_view_simps(1) registry_view_register)

lemma bridge_run_keeps_handle:
  "mediaObjects w i = Some m \<Longrightarrow> bridge_fresh h as w \<Longrightarrow>
   mediaObjects (bridge_run h as w) i = Some m"
proof (induction as arbitrary: w)
  case Nil
  then show ?case by simp
next
  case (Cons a as)
  from Cons.prems have "mediaObjects (bridge_step h a w) i = Some m"
    by (intro bridge_step_keeps_handle) simp_all
  then show ?case
    using Cons.IH Cons.prems by simp
qed

lemma local_run_keeps_handle:
  "mediaObjects w i = Some m \<Longrightarrow> local_fresh h as w \<Longrightarrow>
   mediaObjects (local_run h as w) i = Some m"
proof (induction as arbitrary: w)
  case Nil
  then show ?case by simp
next
  case (Cons a as)
  from Cons.prems have "mediaObjects (local_step h a w) i = Some m"
    by (intro local_step_keeps_handle) simp_all
  then show ?case
    using Cons.IH Cons.prems by simp
qed

lemma well_formed_id:
  "well_formed w \<Longrightarrow> mediaObjects w i = Some m \<Longrightarrow> media_id (heap w m) = i \<and> m < nextRef w"
  by (simp add: well_formed_def)

text \<open>The cached duration of a registered handle after one step.\<close>

lemma register_duration:
  "stable_view w' = stable_view (register uuid args w) \<Longrightarrow> m < nextRef w \<Longrightarrow>
   duration (heap w' m) = duration (heap w m)"
  by (auto simp: stable_view_def register_def fun_eq_iff)

lemma lookup_handle: "lookup w j = Handle m \<longleftrightarrow> mediaObjects w j = Some m"
  by (auto simp: lookup_def split: option.splits)

lemma onStatus_duration_of:
  assumes "well_formed w" and "mediaObjects w i = Some this"
  shows "duration (heap (snd (bridge_onStatus h j msgType v w)) this) =
           (if j = i \<and> strict_eq_num msgType MEDIA_DURATION then v else duration (heap w this))"
    and "duration (heap (snd (local_onStatus h j msgType v w)) this) =
           (if j = i \<and> strict_eq_num msgType MEDIA_DURATION then v else duration (heap w this))"
proof -
  have same: "lookup w j = Handle this \<longleftrightarrow> j = i"
    using assms well_formed_id [of w j this] well_formed_id [of w i this]
    by (auto simp: lookup_handle)
  have dur: "duration (heap (if truthy (lookup w i) then assign_duration (lookup w i) v w
            else w\<lparr>console := console w @ [UnknownMedia i]\<rparr>) this) = v"
    using assms(2) by (simp add: lookup_registered update_media_def)
  have other: "j \<noteq> i \<Longrightarrow>
      duration (heap (if truthy (lookup w j) then assign_duration (lookup w j) v w
            else w\<lparr>console := console w @ [UnknownMedia j]\<rparr>) this) = duration (heap w this)"
    using same by (simp add: heap_assign_duration)
  show "duration (heap (snd (bridge_onStatus h j msgType v w)) this) =
           (if j = i \<and> strict_eq_num msgType MEDIA_DURATION then v else duration (heap w this))"
    using dur other
    by (cases "strict_eq_num msgType MEDIA_DURATION")
      (auto simp: onStatus_duration stable_duration [OF onStatus_stable(1)])
  show "duration (heap (snd (local_onStatus h j msgType v w)) this) =
           (if j = i \<and> strict_eq_num msgType MEDIA_DURATION then v else duration (heap w this))"
    using dur other
    by (cases "strict_eq_num msgType MEDIA_DURATION")
      (auto simp: onStatus_duration stable_duration [OF onStatus_stable(2)])
qed

lemma bridge_step_duration:
  assumes "well_formed w" and "mediaObjects w i = Some this"
  shows "duration (heap (bridge_step h a w) this) = last_or (duration (heap w this)) (bridge_delivers i a)"
proof (cases a)
  case (B_new uuid args)
  have "this < nextRef w"
    using assms well_formed_id by blast
  then show ?thesis
    using B_new bridge_new_stable [of uuid args w]
    by (cases "bridge_signature args")
      (auto simp: bridge_delivers_def last_or_def dest: register_duration stable_duration)
next
  case (B_onStatus j msgType v)
  then show ?thesis
    using assms by (simp add: onStatus_duration_of bridge_delivers_def last_or_def)
qed (simp_all add: bridge_delivers_def last_or_def bridge_methods_stable [THEN stable_duration])

lemma local_step_duration:
  assumes "well_formed w" and "mediaObjects w i = Some this"
  shows "duration (heap (local_step h a w) this) = last_or (duration (heap w this)) (local_delivers i a w)"
proof (cases a)
  case (L_new uuid args)
  have "this < nextRef w"
    using assms well_formed_id by blast
  then show ?thesis
    using L_new local_new_stable [of h uuid args w]
    by (cases "local_signature args")
      (auto simp: local_delivers_def last_or_def dest: register_duration stable_duration)
next
  case (L_onStatus j msgType v)
  then show ?thesis
    using assms by (simp add: onStatus_duration_of local_delivers_def last_or_def)
next
  case (L_durationchange m d)
  then show ?thesis
    using assms
    by (simp add: node_ondurationchange_def onStatus_duration_of local_delivers_def last_or_def)
qed (simp_all add: local_delivers_def last_or_def local_methods_stable [THEN stable_duration]
      local_stop_stable [THEN stable_duration] node_onerror_stable [THEN stable_duration])

lemma last_or_append: "last_or (last_or d xs) ys = last_or d (xs @ ys)"
  by (simp add: last_or_def)

lemma bridge_run_duration:
  "well_formed w \<Longrightarrow> mediaObjects w i = Some this \<Longrightarrow> bridge_fresh h as w \<Longrightarrow>
   duration (heap (bridge_run h as w) this) = last_or (duration (heap w this)) (bridge_durations i as)"
proof (induction as arbitrary: w)
  case Nil
  then show ?case by (simp add: last_or_def)
next
  case (Cons a as)
  have "mediaObjects (bridge_step h a w) i = Some this"
    using Cons.prems by (intro bridge_step_keeps_handle) simp_all
  moreover have "well_formed (bridge_step h a w)"
    using Cons.prems by (simp add: bridge_step_well_formed)
  ultimately have "duration (heap (bridge_run h as (bridge_step h a w)) this) =
      last_or (duration (heap (bridge_step h a w) this)) (bridge_durations i as)"
    using Cons.IH Cons.prems by simp
  then show ?case
    using Cons.prems by (simp add: bridge_step_duration last_or_append)
qed

lemma local_run_duration:
  "well_formed w \<Longrightarrow> mediaObjects w i = Some this \<Longrightarrow> local_fresh h as w \<Longrightarrow>
   duration (heap (local_run h as w) this) = last_or (duration (heap w this)) (local_durations h i as w)"
proof (induction as arbitrary: w)
  case Nil
  then show ?case by (simp add: last_or_def)
next
  case (Cons a as)
  have "mediaObjects (local_step h a w) i = Some this"
    using Cons.prems by (intro local_step_keeps_handle) simp_all
  moreover have "well_formed (local_step h a w)"
    using Cons.prems by (simp add: local_step_well_formed)
  ultimately have "duration (heap (local_run h as (local_step h a w)) this) =
      last_or (duration (heap (local_step h a w) this)) (local_durations h i as (local_step h a w))"
    using Cons.IH Cons.prems by simp
  then show ?case
    using Cons.prems by (simp add: local_step_duration last_or_append)
qed

section \<open>Properties of runs\<close>

lemma local_new_trace:
  assumes "local_signature args"
  shows "trace (snd (local_NocSonicMedia h uuid args w)) =
           trace w @ invocation (nth_arg args 3) [JNum MEDIA_STARTING]
             @ (case Audio_throws h of
                  None \<Rightarrow> []
                | Some e \<Rightarrow> invocation (nth_arg args 2) [JObj [(''code'', JNum (MEDIA_ERR_ABORTED h))]])"
proof -
  have chk: "checkArgs ''SFFF'' ''NocSonicMedia'' args = None"
    using assms by (simp add: checkArgs_local)
  have cbs: "optional_function (nth_arg args 1)" "optional_function (nth_arg args 2)"
    "optional_function (nth_arg args 3)"
    using assms by (simp_all add: local_signature_def)
  show ?thesis
    using chk cbs
    by (simp add: local_NocSonicMedia_def Let_def andThen_def register_simps new_media_simps
      local_onStatus_state_registered tryCatch_def assign_node_def createNode_def throw_def
      ret_def modify_def report_aborted_def update_media_def local_onStatus_error_registered
      MEDIA_STARTING_def MEDIA_STOPPED_def split: option.splits)
qed

lemma bridge_constructed:
  assumes "bridge_NocSonicMedia uuid args (bridge_run h before initial_world) = (Inr this, w1)"
  shows "well_formed w1" and "mediaObjects w1 uuid = Some this"
    and "duration (heap w1 this) = JNum (Fin (- 1))"
    and "outbox w1 = outbox (bridge_run h before initial_world)
           @ [Exec NoCallback (nth_arg args 2) ''NocSonicMedia'' ''create''
                [JStr uuid, nth_arg args 0]]"
proof -
  let ?w0 = "bridge_run h before initial_world"
  have sig: "bridge_signature args"
    using assms bridge_new_fail [of args uuid ?w0] by auto
  have w1: "w1 = (register uuid args ?w0)\<lparr>outbox := outbox ?w0 @
         [Exec NoCallback (nth_arg args 2) ''NocSonicMedia'' ''create''
            [JStr uuid, nth_arg args 0]]\<rparr>" and ref: "this = nextRef ?w0"
    using assms sig by (simp_all add: bridge_new_ok)
  have "well_formed (bridge_step h (B_new uuid args) ?w0)"
    by (intro bridge_step_well_formed bridge_run_well_formed well_formed_initial)
  then show "well_formed w1"
    using assms by simp
  show "mediaObjects w1 uuid = Some this" "duration (heap w1 this) = JNum (Fin (- 1))"
    "outbox w1 = outbox ?w0 @ [Exec NoCallback (nth_arg args 2) ''NocSonicMedia'' ''create''
                [JStr uuid, nth_arg args 0]]"
    by (simp_all add: w1 ref register_simps new_media_simps)
qed

lemma local_constructed:
  assumes "local_NocSonicMedia h uuid args (local_run h before initial_world) = (Inr this, w1)"
  shows "well_formed w1" and "mediaObjects w1 uuid = Some this"
    and "duration (heap w1 this) = JNum (Fin (- 1))"
    and "trace w1 = trace (local_run h before initial_world)
           @ invocation (nth_arg args 3) [JNum MEDIA_STARTING]
           @ (case Audio_throws h of
                None \<Rightarrow> []
              | Some e \<Rightarrow> invocation (nth_arg args 2) [JObj [(''code'', JNum (MEDIA_ERR_ABORTED h))]])"
proof -
  let ?w0 = "local_run h before initial_world"
  have sig: "local_signature args"
    using assms local_new_fail [of args h uuid ?w0] by auto
  have ref: "this = nextRef ?w0" and reg: "mediaObjects w1 = (mediaObjects ?w0)(uuid \<mapsto> nextRef ?w0)"
    using assms local_new_ok [OF sig, of h uuid ?w0] by auto
  have "well_formed (local_step h (L_new uuid args) ?w0)"
    by (intro local_step_well_formed local_run_well_formed well_formed_initial)
  then show "well_formed w1"
    using assms by simp
  show "mediaObjects w1 uuid = Some this"
    by (simp add: reg ref)
  have "stable_view w1 = stable_view (register uuid args ?w0)"
    using local_new_stable [of h uuid args ?w0] assms sig by simp
  then have "duration (heap w1 this) = duration (heap (register uuid args ?w0) this)"
    by (rule stable_duration)
  then show "duration (heap w1 this) = JNum (Fin (- 1))"
    by (simp add: ref register_simps new_media_simps)
  show "trace w1 = trace ?w0
           @ invocation (nth_arg args 3) [JNum MEDIA_STARTING]
           @ (case Audio_throws h of
                None \<Rightarrow> []
              | Some e \<Rightarrow> invocation (nth_arg args 2) [JObj [(''code'', JNum (MEDIA_ERR_ABORTED h))]])"
    using local_new_trace [OF sig, of h uuid ?w0] assms by simp
qed

lemmas bridge_defs = bridge_onStatus_def bridge_NocSonicMedia_def exec_def bridge_play_def
  bridge_stop_def bridge_seekTo_def bridge_pause_def bridge_getDuration_def
  bridge_getCurrentPosition_def bridge_startRecord_def bridge_stopRecord_def bridge_release_def
  bridge_setVolume_def exec_success_def exec_fail_def

lemmas node_defs = node_onloadstart_def node_onplaying_def node_ondurationchange_def
  node_onerror_def node_onended_def duration_or_minus_one_def local_getDuration_def
  local_startRecord_def local_stopRecord_def

text \<open>
  C2. A handle is made by a constructor call at any moment of a run that started
  with the empty registry. Right after the call \<open>getDuration()\<close> returns -1. After any
  further steps of the run (method calls on any handle, status deliveries for any id,
  answers of the native side, element events, further constructor calls with fresh
  ids), \<open>getDuration()\<close> returns the value carried by the last Duration message that the
  steps delivered through \<open>onStatus\<close> for the handle's id, and -1 when they delivered
  none. \<open>getDuration()\<close> returns the state as it got it. This holds in both modules.
\<close>

theorem getDuration_last_delivered:
  "(bridge_NocSonicMedia uuid args (bridge_run h before initial_world) = (Inr this, w1)
      \<and> bridge_fresh h after w1 \<longrightarrow>
    bridge_getDuration this w1 = (Inr (JNum (Fin (- 1))), w1)
    \<and> bridge_getDuration this (bridge_run h after w1) =
        (Inr (last_or (JNum (Fin (- 1))) (bridge_durations uuid after)), bridge_run h after w1))
   \<and> (local_NocSonicMedia h uuid args' (local_run h before' initial_world) = (Inr this', w1')
      \<and> local_fresh h after' w1' \<longrightarrow>
    local_getDuration this' w1' = (Inr (JNum (Fin (- 1))), w1')
    \<and> local_getDuration this' (local_run h after' w1') =
        (Inr (last_or (JNum (Fin (- 1))) (local_durations h uuid after' w1')),
         local_run h after' w1'))"
  using bridge_constructed(1-3) [of uuid args h before this w1]
    bridge_run_duration [of w1 uuid this h after]
    local_constructed(1-3) [of h uuid args' before' this' w1']
    local_run_duration [of w1' uuid this' h after']
  by (simp add: bridge_getDuration_def local_getDuration_def ret_def)

theorem getDuration_last_delivered_witness:
  "bridge_NocSonicMedia ''id-1'' [JStr ''track.mp3''] (bridge_run example_host [] initial_world)
     = (Inr 0, snd (bridge_NocSonicMedia ''id-1'' [JStr ''track.mp3''] initial_world))
   \<and> bridge_fresh example_host bridge_example_run
       (snd (bridge_NocSonicMedia ''id-1'' [JStr ''track.mp3''] initial_world))
   \<and> fst (bridge_getDuration 0 (bridge_run example_host bridge_example_run
        (snd (bridge_NocSonicMedia ''id-1'' [JStr ''track.mp3''] initial_world))))
       = Inr (JNum (Fin 15))
   \<and> local_NocSonicMedia example_host ''id-1'' [JStr ''track.mp3''] (local_run example_host [] initial_world)
     = (Inr 0, snd (local_NocSonicMedia example_host ''id-1'' [JStr ''track.mp3''] initial_world))
   \<and> local_fresh example_host local_example_run
       (snd (local_NocSonicMedia example_host ''id-1'' [JStr ''track.mp3''] initial_world))
   \<and> fst (local_getDuration 0 (local_run example_host local_example_run
        (snd (local_NocSonicMedia example_host ''id-1'' [JStr ''track.mp3''] initial_world))))
       = Inr (JNum (Fin 15))"
proof -
  let ?b1 = "snd (bridge_NocSonicMedia ''id-1'' [JStr ''track.mp3''] initial_world)"
  let ?l1 = "snd (local_NocSonicMedia example_host ''id-1'' [JStr ''track.mp3''] initial_world)"
  have b: "bridge_NocSonicMedia ''id-1'' [JStr ''track.mp3''] (bridge_run example_host [] initial_world)
     = (Inr 0, ?b1)"
    by (simp add: bridge_defs js_defs example_simps local_defs Let_def)
  have l: "local_NocSonicMedia example_host ''id-1'' [JStr ''track.mp3''] (local_run example_host [] initial_world)
     = (Inr 0, ?l1)"
    by (simp add: js_defs example_simps local_defs Let_def)
  have bf: "bridge_fresh example_host bridge_example_run ?b1"
    by (simp add: bridge_example_run_def bridge_defs js_defs example_simps local_defs Let_def)
  have lf: "local_fresh example_host local_example_run ?l1"
    by (simp add: local_example_run_def node_defs js_defs example_simps local_defs Let_def)
  have bd: "bridge_durations ''id-1'' bridge_example_run = [JNum (Fin 12), JNum (Fin 15)]"
    by (simp add: bridge_example_run_def bridge_delivers_def js_defs)
  have ld: "local_durations example_host ''id-1'' local_example_run ?l1 = [JNum (Fin 12), JNum (Fin 15)]"
    by (simp add: local_example_run_def local_delivers_def node_defs js_defs example_simps local_defs Let_def)
  show ?thesis
    using getDuration_last_delivered [of "''id-1''" "[JStr ''track.mp3'']" example_host "[]" 0 ?b1
        bridge_example_run "[JStr ''track.mp3'']" "[]" 0 ?l1 local_example_run]
      b l bf lf
    by (simp add: bd ld last_or_def)
qed

text \<open>
  C6. No step of a run removes an entry of the registry, whatever the state and the
  steps. A constructor call that returns a handle has registered it under its id when it
  returns: in the bridge module the "create" request is then the last request handed to
  \<open>exec\<close>, nothing has been answered yet; in the local module the Starting
  notification, sent inside the constructor, has already reached the handle's status
  callback. After any further steps (play, stop, pause, seekTo, release, setVolume,
  status deliveries and all the others, constructor calls drawing fresh ids) the
  registry still maps the id to the handle, and the handle still carries the id.
\<close>

theorem registry_keeps_handles:
  "(mediaObjects w i \<noteq> None \<longrightarrow>
      mediaObjects (bridge_run h bs w) i \<noteq> None \<and> mediaObjects (local_run h ls w) i \<noteq> None)
   \<and> (bridge_NocSonicMedia uuid args (bridge_run h before initial_world) = (Inr this, w1)
      \<and> bridge_fresh h after w1 \<longrightarrow>
    mediaObjects w1 uuid = Some this
    \<and> outbox w1 = outbox (bridge_run h before initial_world)
         @ [Exec NoCallback (nth_arg args 2) ''NocSonicMedia'' ''create'' [JStr uuid, nth_arg args 0]]
    \<and> mediaObjects (bridge_run h after w1) uuid = Some this
    \<and> media_id (heap (bridge_run h after w1) this) = uuid)
   \<and> (local_NocSonicMedia h uuid args' (local_run h before' initial_world) = (Inr this', w1')
      \<and> local_fresh h after' w1' \<longrightarrow>
    mediaObjects w1' uuid = Some this'
    \<and> trace w1' = trace (local_run h before' initial_world)
         @ invocation (nth_arg args' 3) [JNum MEDIA_STARTING]
         @ (case Audio_throws h of
              None \<Rightarrow> []
            | Some e \<Rightarrow> invocation (nth_arg args' 2) [JObj [(''code'', JNum (MEDIA_ERR_ABORTED h))]])
    \<and> mediaObjects (local_run h after' w1') uuid = Some this'
    \<and> media_id (heap (local_run h after' w1') this') = uuid)"
proof -
  have "bridge_NocSonicMedia uuid args (bridge_run h before initial_world) = (Inr this, w1)
      \<and> bridge_fresh h after w1 \<Longrightarrow>
    mediaObjects (bridge_run h after w1) uuid = Some this
    \<and> media_id (heap (bridge_run h after w1) this) = uuid"
    using bridge_constructed(1,2) [of uuid args h before this w1]
      bridge_run_keeps_handle [of w1 uuid this h after]
      bridge_run_well_formed [of w1 h after]
      well_formed_id [of "bridge_run h after w1" uuid this]
    by simp
  moreover have "local_NocSonicMedia h uuid args' (local_run h before' initial_world) = (Inr this', w1')
      \<and> local_fresh h after' w1' \<Longrightarrow>
    mediaObjects (local_run h after' w1') uuid = Some this'
    \<and> media_id (heap (local_run h after' w1') this') = uuid"
    using local_constructed(1,2) [of h uuid args' before' this' w1']
      local_run_keeps_handle [of w1' uuid this' h after']
      local_run_well_formed [of w1' h after']
      well_formed_id [of "local_run h after' w1'" uuid this']
    by simp
  ultimately show ?thesis
    using bridge_run_keeps_entries [of w i h bs] local_run_keeps_entries [of w i h ls]
      bridge_constructed(2,4) [of uuid args h before this w1]
      local_constructed(2,4) [of h uuid args' before' this' w1']
    by simp
qed

theorem registry_keeps_handles_witness:
  "mediaObjects example_world ''id-1'' \<noteq> None
   \<and> mediaObjects (bridge_run example_host bridge_example_run example_world) ''id-1'' \<noteq> None
   \<and> mediaObjects (local_run example_host local_example_run example_world) ''id-1'' \<noteq> None
   \<and> bridge_NocSonicMedia ''id-1'' [JStr ''track.mp3''] (bridge_run example_host [] initial_world)
     = (Inr 0, snd (bridge_NocSonicMedia ''id-1'' [JStr ''track.mp3''] initial_world))
   \<and> bridge_fresh example_host bridge_example_run
       (snd (bridge_NocSonicMedia ''id-1'' [JStr ''track.mp3''] initial_world))
   \<and> mediaObjects (bridge_run example_host bridge_example_run
        (snd (bridge_NocSonicMedia ''id-1'' [JStr ''track.mp3''] initial_world))) ''id-1'' = Some 0
   \<and> local_NocSonicMedia example_host ''id-1'' [JStr ''track.mp3''] (local_run example_host [] initial_world)
     = (Inr 0, snd (local_NocSonicMedia example_host ''id-1'' [JStr ''track.mp3''] initial_world))
   \<and> local_fresh example_host local_example_run
       (snd (local_NocSonicMedia example_host ''id-1'' [JStr ''track.mp3''] initial_world))
   \<and> mediaObjects (local_run example_host local_example_run
        (snd (local_NocSonicMedia example_host ''id-1'' [JStr ''track.mp3''] initial_world))) ''id-1'' = Some 0"
proof -
  let ?b1 = "snd (bridge_NocSonicMedia ''id-1'' [JStr ''track.mp3''] initial_world)"
  let ?l1 = "snd (local_NocSonicMedia example_host ''id-1'' [JStr ''track.mp3''] initial_world)"
  have e: "mediaObjects example_world ''id-1'' \<noteq> None"
    by (simp add: example_simps)
  have b: "bridge_NocSonicMedia ''id-1'' [JStr ''track.mp3''] (bridge_run example_host [] initial_world)
     = (Inr 0, ?b1)"
    by (simp add: bridge_defs js_defs example_simps local_defs Let_def)
  have l: "local_NocSonicMedia example_host ''id-1'' [JStr ''track.mp3''] (local_run example_host [] initial_world)
     = (Inr 0, ?l1)"
    by (simp add: js_defs example_simps local_defs Let_def)
  have bf: "bridge_fresh example_host bridge_example_run ?b1"
    by (simp add: bridge_example_run_def bridge_defs js_defs example_simps local_defs Let_def)
  have lf: "local_fresh example_host local_example_run ?l1"
    by (simp add: local_example_run_def node_defs js_defs example_simps local_defs Let_def)
  show ?thesis
    using registry_keeps_handles [of example_world "''id-1''" example_host bridge_example_run
        local_example_run "''id-1''" "[JStr ''track.mp3'']" "[]" 0 ?b1 bridge_example_run
        "[JStr ''track.mp3'']" "[]" 0 ?l1 local_example_run]
      e b l bf lf
    by simp
qed

end
